theory Spec2Isabelle
  imports Complex_Main
begin

section \<open>Python values used by \<open>main.py\<close>\<close>

text \<open>
  A Python \<open>str\<close> is a sequence of Unicode code points, so it is modelled as a list of
  natural numbers (\<open>len\<close> counts code points, and so does \<open>length\<close> here).
  \<open>ascii\<close> turns an ASCII literal of the theory into such a string.
  The functions keep the names they have in \<open>main.py\<close>, without the leading underscore
  of the private ones (\<open>_get_cached\<close> is \<open>get_cached\<close>, and so on).
\<close>

type_synonym ustr = "nat list"

definition ascii :: "string \<Rightarrow> ustr" where
  "ascii s = map of_char s"

text \<open>
  Three tables of the Python runtime are not part of the repository: the character class
  \<open>\d\<close> of module \<open>re\<close> (every Unicode decimal digit, not only \<open>0\<close>..\<open>9\<close>), the
  whitespace that \<open>str.strip()\<close> removes, and the case mapping \<open>str.lower()\<close>.
  They are parameters of the model, collected in one record.
\<close>

record unicode =
  is_digit :: "nat \<Rightarrow> bool"
  is_space :: "nat \<Rightarrow> bool"
  to_lower :: "ustr \<Rightarrow> ustr"

text \<open>
  For evaluation on concrete inputs, \<open>basic_unicode\<close> is one choice of the three
  tables. Its whitespace is the whitespace of \<open>str.strip()\<close>. Its digits are
  \<open>0\<close>..\<open>9\<close> only, and its lower-casing maps the capitals of ASCII and of the
  Cyrillic block U+0400..U+042F and leaves every other character as it is: Python's
  \<open>\d\<close> has more digits and \<open>str.lower()\<close> maps more letters, so
  \<open>basic_unicode\<close> stands for Python only on texts whose digits are ASCII and
  whose capitals are in these two ranges. It is used on such texts only.
\<close>

definition lower_char :: "nat \<Rightarrow> nat" where
  "lower_char c =
     (if 65 \<le> c \<and> c \<le> 90 then c + 32
      else if 1040 \<le> c \<and> c \<le> 1071 then c + 32
      else if 1024 \<le> c \<and> c \<le> 1039 then c + 80
      else c)"

definition basic_unicode :: unicode where
  "basic_unicode =
     \<lparr>is_digit = (\<lambda>c. 48 \<le> c \<and> c \<le> 57),
      is_space = (\<lambda>c. (9 \<le> c \<and> c \<le> 13) \<or> (28 \<le> c \<and> c \<le> 32) \<or> c = 133 \<or> c = 160 \<or>
                      c = 5760 \<or> (8192 \<le> c \<and> c \<le> 8202) \<or> c = 8232 \<or> c = 8233 \<or>
                      c = 8239 \<or> c = 8287 \<or> c = 12288),
      to_lower = map lower_char\<rparr>"

text \<open>\<open>text.strip()\<close>: drop leading and trailing whitespace.\<close>

definition strip :: "unicode \<Rightarrow> ustr \<Rightarrow> ustr" where
  "strip U s = rev (dropWhile (is_space U) (rev (dropWhile (is_space U) s)))"

text \<open>\<open>needle in text\<close> on strings: \<open>needle\<close> occurs as a contiguous substring.\<close>

fun startswith :: "ustr \<Rightarrow> ustr \<Rightarrow> bool" where
  "startswith s [] = True"
| "startswith [] (p # ps) = False"
| "startswith (c # cs) (p # ps) = (c = p \<and> startswith cs ps)"

fun str_in :: "ustr \<Rightarrow> ustr \<Rightarrow> bool" where
  "str_in needle [] = (needle = [])"
| "str_in needle (c # cs) = (startswith (c # cs) needle \<or> str_in needle cs)"

section \<open>The two regular expressions\<close>

text \<open>
  \<open>re.search\<close> is a backtracking matcher. The patterns of \<open>main.py\<close> are sequences of
  three kinds of item: one character of a class, an optional character of a class
  (\<open>[+-]?\<close>, greedy) and one or more characters of a class (\<open>\d+\<close>, greedy).
  \<open>re_match\<close> matches a pattern at the start of the text and returns the matched text;
  a greedy item first tries to take a character and falls back when the rest fails.
  \<open>re_search\<close> tries every start position from the left, as \<open>re.search\<close> does.
\<close>

datatype item = One "nat \<Rightarrow> bool" | Opt "nat \<Rightarrow> bool" | Plus "nat \<Rightarrow> bool"

fun re_match :: "item list \<Rightarrow> ustr \<Rightarrow> ustr option" where
  "re_match [] s = Some []"
| "re_match (One p # r) [] = None"
| "re_match (One p # r) (c # cs) =
     (if p c then map_option (Cons c) (re_match r cs) else None)"
| "re_match (Opt p # r) [] = re_match r []"
| "re_match (Opt p # r) (c # cs) =
     (if p c then
        (case re_match r cs of Some m \<Rightarrow> Some (c # m) | None \<Rightarrow> re_match r (c # cs))
      else re_match r (c # cs))"
| "re_match (Plus p # r) [] = None"
| "re_match (Plus p # r) (c # cs) =
     (if p c then
        (case re_match (Plus p # r) cs of
           Some m \<Rightarrow> Some (c # m)
         | None \<Rightarrow> map_option (Cons c) (re_match r cs))
      else None)"

fun re_search :: "item list \<Rightarrow> ustr \<Rightarrow> ustr option" where
  "re_search pat [] = re_match pat []"
| "re_search pat (c # cs) =
     (case re_match pat (c # cs) of Some m \<Rightarrow> Some m | None \<Rightarrow> re_search pat cs)"

text \<open>The characters \<open>+\<close>, \<open>-\<close> and the degree glyph U+00B0.\<close>

definition is_sign :: "nat \<Rightarrow> bool" where
  "is_sign c = (c = 43 \<or> c = 45)"

definition degree_glyph :: nat where
  "degree_glyph = 176"

text \<open>The pattern \<open>[+-]?\d+\<degree>\<close> of \<open>_extract_temperature\<close> and \<open>\d+\<close> of the other two.\<close>

definition temperature_re :: "unicode \<Rightarrow> item list" where
  "temperature_re U = [Opt is_sign, Plus (is_digit U), One (\<lambda>c. c = degree_glyph)]"

definition digits_re :: "unicode \<Rightarrow> item list" where
  "digits_re U = [Plus (is_digit U)]"

section \<open>Normalizer helpers\<close>

text \<open>
  Each helper starts with \<open>if not text: return None\<close>, which is taken by \<open>None\<close> and
  by the empty string.
\<close>

definition extract_temperature :: "unicode \<Rightarrow> ustr option \<Rightarrow> ustr option" where
  "extract_temperature U text =
     (case text of None \<Rightarrow> None
      | Some t \<Rightarrow> if t = [] then None else re_search (temperature_re U) t)"

definition extract_wind :: "unicode \<Rightarrow> ustr option \<Rightarrow> ustr option" where
  "extract_wind U text =
     (case text of None \<Rightarrow> None
      | Some t \<Rightarrow> if t = [] then None else Some (strip U t))"

definition extract_pressure :: "unicode \<Rightarrow> ustr option \<Rightarrow> ustr option" where
  "extract_pressure U text =
     (case text of None \<Rightarrow> None
      | Some t \<Rightarrow> if t = [] then None else re_search (digits_re U) t)"

definition extract_humidity :: "unicode \<Rightarrow> ustr option \<Rightarrow> ustr option" where
  "extract_humidity U text =
     (case text of None \<Rightarrow> None
      | Some t \<Rightarrow> if t = [] then None else re_search (digits_re U) t)"

section \<open>Condition codes\<close>

text \<open>
  The Russian phrases that \<open>_map_condition_to_code\<close> looks for, as code points
  (the theory is ASCII, so each phrase is named by its transliteration).
\<close>

definition yasno :: ustr where
  "yasno = [1103, 1089, 1085, 1086]"

definition malooblachno :: ustr where
  "malooblachno = [1084, 1072, 1083, 1086, 1086, 1073, 1083, 1072, 1095, 1085, 1086]"

definition peremennaya_oblachnost :: ustr where
  "peremennaya_oblachnost = [1087, 1077, 1088, 1077, 1084, 1077, 1085, 1085, 1072, 1103, 32, 1086, 1073, 1083, 1072, 1095, 1085, 1086, 1089, 1090, 1100]"

definition oblachno_s_proyasneniyami :: ustr where
  "oblachno_s_proyasneniyami = [1086, 1073, 1083, 1072, 1095, 1085, 1086, 32, 1089, 32, 1087, 1088, 1086, 1103, 1089, 1085, 1077, 1085, 1080, 1103, 1084, 1080]"

definition oblachno :: ustr where
  "oblachno = [1086, 1073, 1083, 1072, 1095, 1085, 1086]"

definition pasmurno :: ustr where
  "pasmurno = [1087, 1072, 1089, 1084, 1091, 1088, 1085, 1086]"

definition nebolshoy_dozhd :: ustr where
  "nebolshoy_dozhd = [1085, 1077, 1073, 1086, 1083, 1100, 1096, 1086, 1081, 32, 1076, 1086, 1078, 1076, 1100]"

definition slabyy_dozhd :: ustr where
  "slabyy_dozhd = [1089, 1083, 1072, 1073, 1099, 1081, 32, 1076, 1086, 1078, 1076, 1100]"

definition dozhd :: ustr where
  "dozhd = [1076, 1086, 1078, 1076, 1100]"

definition liven :: ustr where
  "liven = [1083, 1080, 1074, 1077, 1085, 1100]"

definition silnyy_dozhd :: ustr where
  "silnyy_dozhd = [1089, 1080, 1083, 1100, 1085, 1099, 1081, 32, 1076, 1086, 1078, 1076, 1100]"

definition groza :: ustr where
  "groza = [1075, 1088, 1086, 1079, 1072]"

definition nebolshoy_sneg :: ustr where
  "nebolshoy_sneg = [1085, 1077, 1073, 1086, 1083, 1100, 1096, 1086, 1081, 32, 1089, 1085, 1077, 1075]"

definition slabyy_sneg :: ustr where
  "slabyy_sneg = [1089, 1083, 1072, 1073, 1099, 1081, 32, 1089, 1085, 1077, 1075]"

definition sneg :: ustr where
  "sneg = [1089, 1085, 1077, 1075]"

definition metel :: ustr where
  "metel = [1084, 1077, 1090, 1077, 1083, 1100]"

definition silnyy_sneg :: ustr where
  "silnyy_sneg = [1089, 1080, 1083, 1100, 1085, 1099, 1081, 32, 1089, 1085, 1077, 1075]"

definition tuman :: ustr where
  "tuman = [1090, 1091, 1084, 1072, 1085]"

definition mgla :: ustr where
  "mgla = [1084, 1075, 1083, 1072]"

definition dymka :: ustr where
  "dymka = [1076, 1099, 1084, 1082, 1072]"

definition moros :: ustr where
  "moros = [1084, 1086, 1088, 1086, 1089, 1100]"

definition grad :: ustr where
  "grad = [1075, 1088, 1072, 1076]"

text \<open>
  \<open>_map_condition_to_code\<close>: the \<open>if\<close>/\<open>elif\<close> chain of the source, in its order.
  The guard \<open>if not condition_text\<close> is taken by \<open>None\<close> and by the empty string.
\<close>

definition map_condition_to_code :: "unicode \<Rightarrow> ustr option \<Rightarrow> ustr option" where
  "map_condition_to_code U condition_text =
     (case condition_text of None \<Rightarrow> None
      | Some ct \<Rightarrow>
          if ct = [] then None
          else let text = to_lower U ct in
            if str_in yasno text then Some (ascii ''clear'')
            else if str_in malooblachno text \<or> str_in peremennaya_oblachnost text then Some (ascii ''partly-cloudy'')
            else if str_in oblachno_s_proyasneniyami text then Some (ascii ''cloudy-and-clear'')
            else if str_in oblachno text then Some (ascii ''cloudy'')
            else if str_in pasmurno text then Some (ascii ''overcast'')
            else if str_in nebolshoy_dozhd text \<or> str_in slabyy_dozhd text then Some (ascii ''light-rain'')
            else if str_in dozhd text then Some (ascii ''rain'')
            else if str_in liven text \<or> str_in silnyy_dozhd text then Some (ascii ''heavy-rain'')
            else if str_in groza text then Some (ascii ''thunderstorm'')
            else if str_in nebolshoy_sneg text \<or> str_in slabyy_sneg text then Some (ascii ''light-snow'')
            else if str_in sneg text then Some (ascii ''snow'')
            else if str_in metel text \<or> str_in silnyy_sneg text then Some (ascii ''heavy-snow'')
            else if str_in tuman text then Some (ascii ''fog'')
            else if str_in mgla text \<or> str_in dymka text then Some (ascii ''haze'')
            else if str_in moros text then Some (ascii ''drizzle'')
            else if str_in grad text then Some (ascii ''hail'')
            else Some (ascii ''unknown''))"

text \<open>
  The rule table as the specification words it: pairs of alternative phrases and a code,
  in priority order; the first rule with a phrase occurring in the text decides.
\<close>

definition condition_rules :: "(ustr list \<times> string) list" where
  "condition_rules =
     [([yasno], ''clear''),
      ([malooblachno, peremennaya_oblachnost], ''partly-cloudy''),
      ([oblachno_s_proyasneniyami], ''cloudy-and-clear''),
      ([oblachno], ''cloudy''),
      ([pasmurno], ''overcast''),
      ([nebolshoy_dozhd, slabyy_dozhd], ''light-rain''),
      ([dozhd], ''rain''),
      ([liven, silnyy_dozhd], ''heavy-rain''),
      ([groza], ''thunderstorm''),
      ([nebolshoy_sneg, slabyy_sneg], ''light-snow''),
      ([sneg], ''snow''),
      ([metel, silnyy_sneg], ''heavy-snow''),
      ([tuman], ''fog''),
      ([mgla, dymka], ''haze''),
      ([moros], ''drizzle''),
      ([grad], ''hail'')]"

definition rule_matches :: "ustr \<Rightarrow> ustr list \<times> string \<Rightarrow> bool" where
  "rule_matches text r = (\<exists>n \<in> set (fst r). str_in n text)"

definition first_match :: "(ustr list \<times> string) list \<Rightarrow> ustr \<Rightarrow> string" where
  "first_match rules text =
     (case find (rule_matches text) rules of Some r \<Rightarrow> snd r | None \<Rightarrow> ''unknown'')"

definition condition_codes :: "string list" where
  "condition_codes = map snd condition_rules"

section \<open>The cache\<close>

text \<open>
  A coordinate is a Python float, which the program only uses in a dictionary key and
  in the URL. The query parameter accepts every float: the finite ones, the two
  infinities and NaN. A dictionary finds a key that is the same object as the one
  stored or that compares equal to it. Finite floats and infinities compare by value
  (\<open>0.0\<close> and \<open>-0.0\<close> are equal), so they are modelled by their value. A NaN
  compares unequal to every float, itself included, so it is found only as the very
  same object: \<open>NaN i\<close> is the NaN object number \<open>i\<close>, and two requests that both
  read \<open>nan\<close> hold two different objects. With this, equality of \<open>pyfloat\<close> is the
  comparison the dictionary makes.
\<close>

datatype pyfloat = Finite real | PosInf | NegInf | NaN nat

text \<open>
  A key is \<open>(scope, lat, lon)\<close>. A timestamp is a \<open>datetime\<close>, of microsecond
  resolution: an integer number
  of microseconds, so that \<open>CACHE_TTL = timedelta(minutes=15)\<close> is 900000000.
  \<open>_cache\<close> is a global dictionary, passed explicitly here and returned updated, and
  the value of \<open>datetime.now(timezone.utc)\<close> is the argument \<open>now\<close>.
  An entry is the dictionary \<open>{"ts": ..., "data": ...}\<close>, which is never empty, so
  \<open>if not entry\<close> only tests for a missing key.
\<close>

type_synonym key = "ustr \<times> pyfloat \<times> pyfloat"

record 'd entry =
  ts :: int
  entry_data :: 'd

type_synonym 'd cache = "key \<rightharpoonup> 'd entry"

definition CACHE_TTL :: int where
  "CACHE_TTL = 15 * 60 * 1000000"

definition get_cached :: "'d cache \<Rightarrow> int \<Rightarrow> ustr \<Rightarrow> pyfloat \<Rightarrow> pyfloat \<Rightarrow> 'd option" where
  "get_cached cache now scope lat lon =
     (case cache (scope, lat, lon) of
        None \<Rightarrow> None
      | Some e \<Rightarrow> if now - ts e > CACHE_TTL then None else Some (entry_data e))"

definition set_cached ::
  "'d cache \<Rightarrow> int \<Rightarrow> ustr \<Rightarrow> pyfloat \<Rightarrow> pyfloat \<Rightarrow> 'd \<Rightarrow> 'd cache" where
  "set_cached cache now scope lat lon d =
     cache((scope, lat, lon) \<mapsto> \<lparr>ts = now, entry_data = d\<rparr>)"

section \<open>The parsed page\<close>

text \<open>
  \<open>BeautifulSoup(html, "html.parser")\<close> is a library call; the extractors are modelled
  on its result, the document tree. A tag has a name, the tokens of its \<open>class\<close>
  attribute (the empty list when it has none; this is what \<open>tag.get("class", [])\<close>
  returns), its other attributes and its children; the other nodes are the strings
  that \<open>tag.text\<close> collects (comments and the like, which it skips, are left out).
  A tag object is always true in Python, so \<open>if not wrap\<close> and \<open>li or day_block\<close>
  only test for \<open>None\<close>.
\<close>

datatype node =
  Tag (name: ustr) (classes: "ustr list") (attrs: "(ustr \<times> ustr) list") (contents: "node list")
| Text ustr

text \<open>
  An element of the tree is needed together with its ancestors, nearest first
  (\<open>find_parent\<close> and the descendant combinator of a selector walk up through them).
  \<open>walk\<close> lists a node and everything below it in document order.
\<close>

type_synonym element = "node list \<times> node"

fun walk :: "node list \<Rightarrow> node \<Rightarrow> element list" where
  "walk anc (Text s) = [(anc, Text s)]"
| "walk anc (Tag n cl ats ks) =
     (anc, Tag n cl ats ks) # concat (map (walk (Tag n cl ats ks # anc)) ks)"

fun descendants :: "element \<Rightarrow> element list" where
  "descendants (anc, Text s) = []"
| "descendants (anc, Tag n cl ats ks) = concat (map (walk (Tag n cl ats ks # anc)) ks)"

text \<open>The \<open>BeautifulSoup\<close> object is the root: a tag named \<open>[document]\<close> without parent.\<close>

definition soup :: "node list \<Rightarrow> element" where
  "soup doc = ([], Tag (ascii ''[document]'') [] [] doc)"

text \<open>
  The selectors of \<open>main.py\<close> are compound selectors \<open>tag.class\<close> or \<open>tag\<close>, alone or
  two of them joined by the descendant combinator (\<open>ul.X li.Y\<close>). \<open>select\<close> returns
  the descendants of the element that match, in document order; the ancestors that the
  combinator asks for may lie anywhere above the matched tag.
\<close>

datatype compound = TagClass string string | TagOnly string

fun matches :: "compound \<Rightarrow> node \<Rightarrow> bool" where
  "matches (TagClass t c) (Tag n cl ats ks) = (n = ascii t \<and> ascii c \<in> set cl)"
| "matches (TagOnly t) (Tag n cl ats ks) = (n = ascii t)"
| "matches sel (Text s) = False"

fun above :: "compound list \<Rightarrow> node list \<Rightarrow> bool" where
  "above [] anc = True"
| "above (c # cs) [] = False"
| "above (c # cs) (p # ps) = ((matches c p \<and> above cs ps) \<or> above (c # cs) ps)"

definition sel_matches :: "compound list \<Rightarrow> element \<Rightarrow> bool" where
  "sel_matches sel e =
     (case rev sel of [] \<Rightarrow> False | c # cs \<Rightarrow> matches c (snd e) \<and> above cs (fst e))"

definition select :: "element \<Rightarrow> compound list \<Rightarrow> element list" where
  "select e sel = filter (sel_matches sel) (descendants e)"

definition select_one :: "element \<Rightarrow> compound list \<Rightarrow> element option" where
  "select_one e sel = (case select e sel of [] \<Rightarrow> None | x # xs \<Rightarrow> Some x)"

text \<open>
  \<open>soup.find(tag, class_=lambda c: isinstance(c, str) and part in c)\<close>: the first tag of
  that name one of whose class tokens contains \<open>part\<close>.
\<close>

fun class_contains :: "string \<Rightarrow> string \<Rightarrow> element \<Rightarrow> bool" where
  "class_contains t part (anc, Tag n cl ats ks) =
     (n = ascii t \<and> (\<exists>c \<in> set cl. str_in (ascii part) c))"
| "class_contains t part (anc, Text s) = False"

definition find_class_contains :: "element \<Rightarrow> string \<Rightarrow> string \<Rightarrow> element option" where
  "find_class_contains e t part = find (class_contains t part) (descendants e)"

text \<open>\<open>tag.find_parent(t)\<close>: the nearest ancestor named \<open>t\<close>, with its own ancestors.\<close>

fun find_parent_in :: "string \<Rightarrow> node list \<Rightarrow> element option" where
  "find_parent_in t [] = None"
| "find_parent_in t (p # ps) =
     (if matches (TagOnly t) p then Some (ps, p) else find_parent_in t ps)"

definition find_parent :: "element \<Rightarrow> string \<Rightarrow> element option" where
  "find_parent e t = find_parent_in t (fst e)"

text \<open>
  Text of a tag: \<open>tag.text\<close> joins all strings below it; \<open>get_text(sep, strip=True)\<close>
  strips each string, drops the empty ones and joins the rest with \<open>sep\<close>.
\<close>

fun strings :: "node \<Rightarrow> ustr list" where
  "strings (Text s) = [s]"
| "strings (Tag n cl ats ks) = concat (map strings ks)"

fun join :: "ustr \<Rightarrow> ustr list \<Rightarrow> ustr" where
  "join sep [] = []"
| "join sep [x] = x"
| "join sep (x # y # ys) = x @ sep @ join sep (y # ys)"

definition text_of :: "element \<Rightarrow> ustr" where
  "text_of e = concat (strings (snd e))"

definition get_text :: "unicode \<Rightarrow> ustr \<Rightarrow> element \<Rightarrow> ustr" where
  "get_text U sep e =
     join sep (filter (\<lambda>s. s \<noteq> []) (map (strip U) (strings (snd e))))"

text \<open>\<open>tag.get(key)\<close> on the attributes other than \<open>class\<close>.\<close>

fun get_attr :: "element \<Rightarrow> string \<Rightarrow> ustr option" where
  "get_attr (anc, Tag n cl ats ks) k = map_of ats (ascii k)"
| "get_attr (anc, Text s) k = None"

fun classes_of :: "element option \<Rightarrow> ustr list" where
  "classes_of None = []"
| "classes_of (Some (anc, Tag n cl ats ks)) = cl"
| "classes_of (Some (anc, Text s)) = []"

text \<open>
  \<open>items[index].get_text(...)\<close> inside \<open>try\<close> ... \<open>except (IndexError, AttributeError)\<close>,
  for the non-negative indices that the source uses: out of range is \<open>None\<close>.
\<close>

definition item_at :: "unicode \<Rightarrow> ustr \<Rightarrow> element list \<Rightarrow> nat \<Rightarrow> ustr option" where
  "item_at U sep items index =
     (if index < length items then Some (get_text U sep (items ! index)) else None)"

section \<open>Extraction of the current conditions\<close>

text \<open>
  The extractors raise \<open>ValueError(message)\<close>; a record is the dictionary they build,
  kept as the list of its items in the order of the source.
\<close>

datatype error = ValueError string

type_synonym fields = "(string \<times> ustr option) list"

text \<open>
  The three ways \<open>parse_weather\<close> looks for the fact block: the exact class, any
  \<open>div\<close> with a class containing \<open>AppFact_wrap__\<close>, and the nearest \<open>div\<close> above the
  first \<open>span\<close> with a class containing \<open>AppFactTemperature_value\<close>.
\<close>

definition wrap_exact :: "node list \<Rightarrow> element option" where
  "wrap_exact doc = select_one (soup doc) [TagClass ''div'' ''AppFact_wrap__N4SYB'']"

definition wrap_by_substring :: "node list \<Rightarrow> element option" where
  "wrap_by_substring doc = find_class_contains (soup doc) ''div'' ''AppFact_wrap__''"

definition wrap_by_value_span :: "node list \<Rightarrow> element option" where
  "wrap_by_value_span doc =
     (case find_class_contains (soup doc) ''span'' ''AppFactTemperature_value'' of
        None \<Rightarrow> None
      | Some value_span \<Rightarrow> find_parent value_span ''div'')"

definition stripped_text :: "unicode \<Rightarrow> element option \<Rightarrow> ustr option" where
  "stripped_text U e = map_option (\<lambda>x. strip U (text_of x)) e"

definition text_or_empty :: "element option \<Rightarrow> ustr" where
  "text_or_empty e = (case e of None \<Rightarrow> [] | Some x \<Rightarrow> text_of x)"

definition details_items :: "element \<Rightarrow> element list" where
  "details_items wrap =
     select wrap [TagClass ''ul'' ''AppFact_details__OYahy'',
                  TagClass ''li'' ''AppFact_details__item__QFIXI'']"

definition detail_at :: "unicode \<Rightarrow> element \<Rightarrow> nat \<Rightarrow> ustr option" where
  "detail_at U wrap index = item_at U [] (details_items wrap) index"

text \<open>The part of \<open>parse_weather\<close> after the block is found (lines 136 to 177).\<close>

definition fact_fields :: "unicode \<Rightarrow> element \<Rightarrow> fields" where
  "fact_fields U wrap =
     (let temperature_block = select_one wrap [TagClass ''p'' ''AppFactTemperature_content__Lx4p9''];
          sign = (case temperature_block of None \<Rightarrow> None
                  | Some b \<Rightarrow> select_one b [TagClass ''span'' ''AppFactTemperature_sign__1MeN4'']);
          val = (case temperature_block of None \<Rightarrow> None
                 | Some b \<Rightarrow> select_one b [TagClass ''span'' ''AppFactTemperature_value__2qhsG'']);
          deg = (case temperature_block of None \<Rightarrow> None
                 | Some b \<Rightarrow> select_one b [TagClass ''span'' ''AppFactTemperature_degree__LL_2v'']);
          joined = strip U (concat (filter (\<lambda>x. x \<noteq> [])
                     [text_or_empty sign, text_or_empty val, text_or_empty deg]));
          temperature = (if joined = [] then None else Some joined);
          condition_warning = select_one wrap [TagClass ''p'' ''AppFact_warning__8kUUn''];
          feels_like = select_one wrap [TagClass ''span'' ''AppFact_feels__IJoel''];
          yesterday_full = select_one wrap [TagClass ''span'' ''AppFact_yesterday__zTK7e''];
          yesterday_short = select_one wrap [TagClass ''span'' ''AppFact_yesterdayShort__DB943''];
          condition_text = stripped_text U condition_warning
      in [(''temperature'', temperature),
          (''condition'', map_condition_to_code U condition_text),
          (''condition_text'', condition_text),
          (''feels_like'', extract_temperature U (stripped_text U feels_like)),
          (''yesterday_full'', extract_temperature U (stripped_text U yesterday_full)),
          (''yesterday_short'', extract_temperature U (stripped_text U yesterday_short)),
          (''wind'', extract_wind U (detail_at U wrap 0)),
          (''pressure'', extract_pressure U (detail_at U wrap 1)),
          (''humidity'', extract_humidity U (detail_at U wrap 2)),
          (''water_temperature'', detail_at U wrap 3)])"

definition parse_weather :: "unicode \<Rightarrow> node list \<Rightarrow> error + fields" where
  "parse_weather U doc =
     (let wrap = wrap_exact doc;
          wrap = (case wrap of None \<Rightarrow> wrap_by_substring doc | Some w \<Rightarrow> Some w);
          wrap = (case wrap of None \<Rightarrow> wrap_by_value_span doc | Some w \<Rightarrow> Some w)
      in case wrap of
           None \<Rightarrow> Inl (ValueError ''Weather block not found in the page'')
         | Some w \<Rightarrow> Inr (fact_fields U w))"

section \<open>Extraction of the month view\<close>

definition li_of :: "element \<Rightarrow> element option" where
  "li_of day_block = find_parent day_block ''li''"

text \<open>\<open>any("climateStart" in cls for cls in classes)\<close> on the classes of the \<open>li\<close>.\<close>

definition climate_start :: "element \<Rightarrow> bool" where
  "climate_start day_block =
     (\<exists>cls \<in> set (classes_of (li_of day_block)). str_in (ascii ''climateStart'') cls)"

definition month_details :: "element \<Rightarrow> element option" where
  "month_details day_block =
     select_one (case li_of day_block of None \<Rightarrow> day_block | Some li \<Rightarrow> li)
       [TagClass ''div'' ''AppMonthCalendarDayDetailedInfo_details__Z6kgi'']"

definition month_params :: "element \<Rightarrow> element list" where
  "month_params day_block =
     (case month_details day_block of
        None \<Rightarrow> []
      | Some details \<Rightarrow>
          select details [TagClass ''ul'' ''AppMonthCalendarDayDetailedInfo_params__7Z8Yt'',
                          TagOnly ''li''])"

definition param_at :: "unicode \<Rightarrow> element \<Rightarrow> nat \<Rightarrow> ustr option" where
  "param_at U day_block index = item_at U [32] (month_params day_block) index"

text \<open>\<open>a or b\<close> on optional strings: \<open>a\<close> if it is a non-empty string, else \<open>b\<close>.\<close>

definition or_else :: "ustr option \<Rightarrow> ustr option \<Rightarrow> ustr option" where
  "or_else a b = (case a of None \<Rightarrow> b | Some x \<Rightarrow> if x = [] then b else Some x)"

text \<open>The dictionary appended for one day block (lines 197 to 231).\<close>

definition day_fields :: "unicode \<Rightarrow> element \<Rightarrow> fields" where
  "day_fields U day_block =
     (let link = select_one day_block [TagClass ''a'' ''AppMonthCalendarDay_day__date__QDruE''];
          title = (case link of None \<Rightarrow> None | Some l \<Rightarrow> get_attr l ''aria-label'');
          date_text = map_option (get_text U [32]) link;
          temp_spans = select day_block
            [TagClass ''p'' ''AppMonthCalendarDay_temperature__4x_Yx'',
             TagClass ''span'' ''AppMonthCalendarDay_temperature__number__VSntF''];
          day_temp = (case temp_spans of [] \<Rightarrow> None | x # xs \<Rightarrow> Some (strip U (text_of x)));
          night_temp = stripped_text U
            (find (\<lambda>span. ascii ''AppMonthCalendarDay_temperature__number_night__ggkzj''
                              \<in> set (classes_of (Some span))) temp_spans);
          feels = (case month_details day_block of None \<Rightarrow> None
                   | Some details \<Rightarrow> select_one details
                       [TagClass ''p'' ''AppMonthCalendarDayDetailedInfo_details__feelsLike__nXzvQ''])
      in [(''title'', or_else title date_text),
          (''label'', date_text),
          (''day_temp'', day_temp),
          (''night_temp'', night_temp),
          (''feels_like'', extract_temperature U (stripped_text U feels)),
          (''pressure'', extract_pressure U (param_at U day_block 0)),
          (''humidity'', extract_humidity U (param_at U day_block 1)),
          (''wind'', extract_wind U (param_at U day_block 2)),
          (''water_temperature'', param_at U day_block 3)])"

text \<open>The \<open>for\<close> loop over the day blocks; \<open>days\<close> is the list built so far.\<close>

fun month_loop :: "unicode \<Rightarrow> element list \<Rightarrow> fields list \<Rightarrow> fields list" where
  "month_loop U [] days = days"
| "month_loop U (day_block # rest) days =
     (if climate_start day_block then month_loop U rest days
      else month_loop U rest (days @ [day_fields U day_block]))"

text \<open>The month container and the day blocks inside it, in document order.\<close>

definition month_article :: "node list \<Rightarrow> element option" where
  "month_article doc = select_one (soup doc) [TagClass ''article'' ''AppMonth_month__CunyE'']"

definition day_blocks :: "element \<Rightarrow> element list" where
  "day_blocks article = select article [TagClass ''div'' ''AppMonthCalendarDay_day__GjOhu'']"

definition parse_month :: "unicode \<Rightarrow> node list \<Rightarrow> error + fields list" where
  "parse_month U doc =
     (case month_article doc of
        None \<Rightarrow> Inl (ValueError ''Month block not found in the page'')
      | Some article \<Rightarrow>
          (let days = month_loop U (day_blocks article) []
           in if days = [] then Inl (ValueError ''No day entries found in month view'')
              else Inr days))"

section \<open>The two endpoints\<close>

text \<open>
  The cache holds the data of both scopes. \<open>if cached:\<close> tests the looked-up value for
  truth: \<open>None\<close>, an empty dictionary and an empty list are false; \<open>hit\<close> is the
  looked-up value when the test succeeds.
\<close>

datatype payload = Current fields | Month "fields list"

fun truthy :: "payload option \<Rightarrow> bool" where
  "truthy None = False"
| "truthy (Some (Current r)) = (r \<noteq> [])"
| "truthy (Some (Month ds)) = (ds \<noteq> [])"

text \<open>
  The source URL is an f-string of a fixed template and the two coordinates; it is
  kept as the template and the coordinates. The response is the dictionary returned to
  the framework, or the \<open>HTTPException\<close> raised, with status code and detail.
\<close>

datatype url = TotalUrl pyfloat pyfloat | MonthUrl pyfloat pyfloat

record response =
  resp_lat :: pyfloat
  resp_lon :: pyfloat
  resp_source :: url
  resp_data :: payload
  resp_cached :: bool

datatype http_error = HTTPException nat ustr

text \<open>
  \<open>get_weather_total\<close> and \<open>get_weather_month\<close> are the same code up to the scope, the
  URL and the extractor, which are the parameters of \<open>endpoint\<close>. The outcome of
  \<open>requests.get\<close> followed by \<open>raise_for_status\<close> is the argument \<open>fetched\<close>: the text
  of the \<open>RequestException\<close>, or the page (as parsed by \<open>BeautifulSoup\<close>). The clock
  is read at most twice: \<open>t1\<close> by the first lookup, \<open>t2\<close> by the lookup after a failure
  or by the store. The result is the response and the cache afterwards.
\<close>

definition hit :: "payload option \<Rightarrow> payload option" where
  "hit cached = (if truthy cached then cached else None)"

definition from_cache :: "url \<Rightarrow> pyfloat \<Rightarrow> pyfloat \<Rightarrow> payload \<Rightarrow> response" where
  "from_cache u lat lon d =
     \<lparr>resp_lat = lat, resp_lon = lon, resp_source = u, resp_data = d, resp_cached = True\<rparr>"

definition endpoint ::
  "ustr \<Rightarrow> url \<Rightarrow> (node list \<Rightarrow> error + payload) \<Rightarrow> payload cache \<Rightarrow> int \<Rightarrow> int \<Rightarrow>
   pyfloat \<Rightarrow> pyfloat \<Rightarrow> ustr + node list \<Rightarrow> (http_error + response) \<times> payload cache" where
  "endpoint scope u parse cache t1 t2 lat lon fetched =
     (case hit (get_cached cache t1 scope lat lon) of
        Some cached \<Rightarrow> (Inr (from_cache u lat lon cached), cache)
      | None \<Rightarrow>
         (case fetched of
            Inl exc \<Rightarrow>
              (case hit (get_cached cache t2 scope lat lon) of
                 Some cached \<Rightarrow> (Inr (from_cache u lat lon cached), cache)
               | None \<Rightarrow>
                   (Inl (HTTPException 502 (ascii ''Failed to fetch source page: '' @ exc)),
                    cache))
          | Inr doc \<Rightarrow>
              (case parse doc of
                 Inl (ValueError msg) \<Rightarrow>
                   (case hit (get_cached cache t2 scope lat lon) of
                      Some cached \<Rightarrow> (Inr (from_cache u lat lon cached), cache)
                    | None \<Rightarrow> (Inl (HTTPException 500 (ascii msg)), cache))
               | Inr d \<Rightarrow>
                   (Inr \<lparr>resp_lat = lat, resp_lon = lon, resp_source = u, resp_data = d,
                         resp_cached = False\<rparr>,
                    set_cached cache t2 scope lat lon d))))"

definition get_weather_total ::
  "unicode \<Rightarrow> payload cache \<Rightarrow> int \<Rightarrow> int \<Rightarrow> pyfloat \<Rightarrow> pyfloat \<Rightarrow> ustr + node list \<Rightarrow>
   (http_error + response) \<times> payload cache" where
  "get_weather_total U cache t1 t2 lat lon fetched =
     endpoint (ascii ''current'') (TotalUrl lat lon)
       (\<lambda>doc. map_sum id Current (parse_weather U doc)) cache t1 t2 lat lon fetched"

definition get_weather_month ::
  "unicode \<Rightarrow> payload cache \<Rightarrow> int \<Rightarrow> int \<Rightarrow> pyfloat \<Rightarrow> pyfloat \<Rightarrow> ustr + node list \<Rightarrow>
   (http_error + response) \<times> payload cache" where
  "get_weather_month U cache t1 t2 lat lon fetched =
     endpoint (ascii ''month'') (MonthUrl lat lon)
       (\<lambda>doc. map_sum id Month (parse_month U doc)) cache t1 t2 lat lon fetched"

section \<open>Notions used to state the properties\<close>

text \<open>
  The strings a pattern accepts, stated without reference to the matcher: each item
  takes its characters from its class, an optional item at most one, a repeated item
  at least one.
\<close>

fun accepts :: "item list \<Rightarrow> ustr \<Rightarrow> bool" where
  "accepts [] m = (m = [])"
| "accepts (One p # r) [] = False"
| "accepts (One p # r) (c # cs) = (p c \<and> accepts r cs)"
| "accepts (Opt p # r) [] = accepts r []"
| "accepts (Opt p # r) (c # cs) = ((p c \<and> accepts r cs) \<or> accepts r (c # cs))"
| "accepts (Plus p # r) [] = False"
| "accepts (Plus p # r) (c # cs) = (p c \<and> (accepts (Plus p # r) cs \<or> accepts r cs))"

text \<open>
  A failed request: the fetch raised, and the error to surface is 502 with the text of
  the exception, or the page was fetched and the extractor raised, and the error to
  surface is 500 with the message of the \<open>ValueError\<close>.
\<close>

definition failed :: "(node list \<Rightarrow> error + payload) \<Rightarrow> ustr + node list \<Rightarrow> http_error \<Rightarrow> bool" where
  "failed parse fetched err =
     (case fetched of
        Inl exc \<Rightarrow> err = HTTPException 502 (ascii ''Failed to fetch source page: '' @ exc)
      | Inr doc \<Rightarrow>
          (case parse doc of
             Inl (ValueError msg) \<Rightarrow> err = HTTPException 500 (ascii msg)
           | Inr d \<Rightarrow> False))"

definition total_failed :: "unicode \<Rightarrow> ustr + node list \<Rightarrow> http_error \<Rightarrow> bool" where
  "total_failed U fetched err =
     failed (\<lambda>doc. map_sum id Current (parse_weather U doc)) fetched err"

definition month_failed :: "unicode \<Rightarrow> ustr + node list \<Rightarrow> http_error \<Rightarrow> bool" where
  "month_failed U fetched err =
     failed (\<lambda>doc. map_sum id Month (parse_month U doc)) fetched err"

text \<open>
  Two floats are the same coordinate for a caller when they are the same number or are
  both NaN, whatever object holds them.
\<close>

fun is_nan :: "pyfloat \<Rightarrow> bool" where
  "is_nan (NaN i) = True"
| "is_nan x = False"

definition same_value :: "pyfloat \<Rightarrow> pyfloat \<Rightarrow> bool" where
  "same_value a b = (a = b \<or> (is_nan a \<and> is_nan b))"

text \<open>
  The text the temperature pattern describes, in the words of the specification: an
  optional sign, one or more digits, and the degree glyph.
\<close>

definition temperature_shape :: "unicode \<Rightarrow> ustr \<Rightarrow> bool" where
  "temperature_shape U m =
     (\<exists>sg ds. m = sg @ ds @ [degree_glyph] \<and> (sg = [] \<or> sg = [43] \<or> sg = [45]) \<and>
        ds \<noteq> [] \<and> (\<forall>d \<in> set ds. is_digit U d))"

text \<open>The first run of digits: skip what is not a digit, then take digits while they last.\<close>

definition first_digit_run :: "unicode \<Rightarrow> ustr \<Rightarrow> ustr" where
  "first_digit_run U t = takeWhile (is_digit U) (dropWhile (\<lambda>c. \<not> is_digit U c) t)"

text \<open>Two inputs for evaluation: \<open>feels_text\<close> reads "feels like +3 degrees" in Russian.\<close>

definition feels_text :: ustr where
  "feels_text = [1054, 1097, 1091, 1097, 1072, 1077, 1090, 1089, 1103, 32, 1082, 1072, 1082,
                 32, 43, 51, 176]"

definition no_data_text :: ustr where
  "no_data_text = [1085, 1077, 1090, 32, 1076, 1072, 1085, 1085, 1099, 1093]"

text \<open>An input for evaluation: "Oblachno, pasmurno" (cloudy, overcast) in Russian.\<close>

definition cloudy_overcast :: ustr where
  "cloudy_overcast = [1054, 1073, 1083, 1072, 1095, 1085, 1086, 44, 32,
                      1087, 1072, 1089, 1084, 1091, 1088, 1085, 1086]"

text \<open>
  A selector is missing below a node when no tag of the subtree matches it:
  \<open>occurs\<close> is its negation. The two lists the detail items are taken from.
\<close>

fun occurs :: "compound \<Rightarrow> node \<Rightarrow> bool" where
  "occurs c (Text s) = False"
| "occurs c (Tag n cl ats ks) = (matches c (Tag n cl ats ks) \<or> (\<exists>k \<in> set ks. occurs c k))"

definition ul_details :: compound where
  "ul_details = TagClass ''ul'' ''AppFact_details__OYahy''"

definition ul_params :: compound where
  "ul_params = TagClass ''ul'' ''AppMonthCalendarDayDetailedInfo_params__7Z8Yt''"

text \<open>
  Pages for evaluation: a month with a single placeholder day, a month with a
  placeholder day and a real one, a page without any of the known containers, the
  fact block with the four detail items of the specification's example, and an empty
  \<open>div\<close>.
\<close>

definition placeholder_page :: "node list" where
  "placeholder_page =
     [Tag (ascii ''article'') [ascii ''AppMonth_month__CunyE''] []
        [Tag (ascii ''li'') [ascii ''AppMonthCalendar_climateStart__x''] []
           [Tag (ascii ''div'') [ascii ''AppMonthCalendarDay_day__GjOhu''] [] [Text [49]]]]]"

definition unrelated_page :: "node list" where
  "unrelated_page = [Tag (ascii ''div'') [ascii ''other''] [] [Text [104, 105]]]"

definition mixed_page :: "node list" where
  "mixed_page =
     [Tag (ascii ''article'') [ascii ''AppMonth_month__CunyE''] []
        [Tag (ascii ''li'') [ascii ''AppMonthCalendar_climateStart__x''] []
           [Tag (ascii ''div'') [ascii ''AppMonthCalendarDay_day__GjOhu''] [] [Text [49]]],
         Tag (ascii ''li'') [] []
           [Tag (ascii ''div'') [ascii ''AppMonthCalendarDay_day__GjOhu''] [] [Text [50]]]]]"

definition mixed_article :: element where
  "mixed_article = ([Tag (ascii ''[document]'') [] [] mixed_page], hd mixed_page)"

definition second_day :: element where
  "second_day =
     ([Tag (ascii ''li'') [] []
         [Tag (ascii ''div'') [ascii ''AppMonthCalendarDay_day__GjOhu''] [] [Text [50]]],
       hd mixed_page, Tag (ascii ''[document]'') [] [] mixed_page],
      Tag (ascii ''div'') [ascii ''AppMonthCalendarDay_day__GjOhu''] [] [Text [50]])"

definition fact_page :: "node list" where
  "fact_page =
     [Tag (ascii ''div'') [ascii ''AppFact_wrap__N4SYB''] []
        [Tag (ascii ''ul'') [ascii ''AppFact_details__OYahy''] []
           [Tag (ascii ''li'') [ascii ''AppFact_details__item__QFIXI''] []
              [Text [1057, 1047, 44, 32, 51, 32, 1084, 47, 1089]],
            Tag (ascii ''li'') [ascii ''AppFact_details__item__QFIXI''] []
              [Text [55, 53, 56, 32, 1084, 1084, 32, 1088, 1090, 46, 32, 1089, 1090, 46]],
            Tag (ascii ''li'') [ascii ''AppFact_details__item__QFIXI''] [] [Text [54, 53, 37]],
            Tag (ascii ''li'') [ascii ''AppFact_details__item__QFIXI''] [] [Text [49, 56, 176]]]]]"

definition fact_wrap :: element where
  "fact_wrap = ([Tag (ascii ''[document]'') [] [] fact_page], hd fact_page)"

definition bare_div :: element where
  "bare_div = ([], Tag (ascii ''div'') [] [] [])"

text \<open>
  The markup the detail items come from, said without the selector engine: an element
  holds a list when one of its children is a tag matching the list selector, the
  children of that tag are the items \<open>lis\<close>, each a tag matching the item selector
  with nothing but strings inside, and no other child of the element has a tag
  matching the item selector anywhere in it. \<open>node_text\<close> is the text of an item:
  its strings stripped, the empty ones dropped, the rest joined by the separator.
\<close>

fun is_text :: "node \<Rightarrow> bool" where
  "is_text (Text s) = True"
| "is_text (Tag n cl ats ks) = False"

fun leaf :: "compound \<Rightarrow> node \<Rightarrow> bool" where
  "leaf d (Tag n cl ats ks) = (matches d (Tag n cl ats ks) \<and> (\<forall>k \<in> set ks. is_text k))"
| "leaf d (Text s) = False"

definition holds_list :: "compound \<Rightarrow> compound \<Rightarrow> element \<Rightarrow> node list \<Rightarrow> bool" where
  "holds_list c d e lis =
     (\<exists>anc n cl ats pre post un ucl uats.
        e = (anc, Tag n cl ats (pre @ [Tag un ucl uats lis] @ post)) \<and>
        matches c (Tag un ucl uats lis) \<and> \<not> matches d (Tag un ucl uats lis) \<and>
        (\<forall>k \<in> set (pre @ post). \<not> occurs d k) \<and> (\<forall>l \<in> set lis. leaf d l))"

definition node_text :: "unicode \<Rightarrow> ustr \<Rightarrow> node \<Rightarrow> ustr" where
  "node_text U sep n = join sep (filter (\<lambda>s. s \<noteq> []) (map (strip U) (strings n)))"

definition li_item :: compound where
  "li_item = TagClass ''li'' ''AppFact_details__item__QFIXI''"

definition li_any :: compound where
  "li_any = TagOnly ''li''"

text \<open>
  A day of the month for evaluation: an \<open>li\<close> with the day block and its details
  panel, which holds the feels-like paragraph and the four parameters (pressure,
  humidity, wind, water temperature). \<open>fact_lis\<close> are the four detail items of
  \<open>fact_page\<close>.
\<close>

definition param_items :: "node list" where
  "param_items =
     [Tag (ascii ''li'') [] []
        [Text [55, 53, 48, 32, 1084, 1084, 32, 1088, 1090, 46, 32, 1089, 1090, 46]],
      Tag (ascii ''li'') [] [] [Text [54, 53, 37]],
      Tag (ascii ''li'') [] [] [Text [1057, 1047, 44, 32, 51, 32, 1084, 47, 1089]],
      Tag (ascii ''li'') [] [] [Text [49, 56, 176]]]"

definition params_ul :: node where
  "params_ul =
     Tag (ascii ''ul'') [ascii ''AppMonthCalendarDayDetailedInfo_params__7Z8Yt''] [] param_items"

definition details_panel :: node where
  "details_panel =
     Tag (ascii ''div'') [ascii ''AppMonthCalendarDayDetailedInfo_details__Z6kgi''] []
       [Tag (ascii ''p'') [ascii ''AppMonthCalendarDayDetailedInfo_details__feelsLike__nXzvQ''] []
          [Text [43, 49, 176]],
        params_ul]"

definition day_div :: node where
  "day_div = Tag (ascii ''div'') [ascii ''AppMonthCalendarDay_day__GjOhu''] [] [Text [53]]"

definition day_li :: node where
  "day_li = Tag (ascii ''li'') [] [] [day_div, details_panel]"

definition day_page :: "node list" where
  "day_page = [Tag (ascii ''article'') [ascii ''AppMonth_month__CunyE''] [] [day_li]]"

definition real_day :: element where
  "real_day = ([day_li, hd day_page, Tag (ascii ''[document]'') [] [] day_page], day_div)"

definition real_panel :: element where
  "real_panel =
     ([day_li, hd day_page, Tag (ascii ''[document]'') [] [] day_page], details_panel)"

definition fact_lis :: "node list" where
  "fact_lis =
     [Tag (ascii ''li'') [ascii ''AppFact_details__item__QFIXI''] []
        [Text [1057, 1047, 44, 32, 51, 32, 1084, 47, 1089]],
      Tag (ascii ''li'') [ascii ''AppFact_details__item__QFIXI''] []
        [Text [55, 53, 56, 32, 1084, 1084, 32, 1088, 1090, 46, 32, 1089, 1090, 46]],
      Tag (ascii ''li'') [ascii ''AppFact_details__item__QFIXI''] [] [Text [54, 53, 37]],
      Tag (ascii ''li'') [ascii ''AppFact_details__item__QFIXI''] [] [Text [49, 56, 176]]]"

section \<open>The cache round trip\<close>

lemma get_cached_fresh:
  "c (s, la, lo) = Some e \<Longrightarrow> t - ts e \<le> CACHE_TTL \<Longrightarrow>
   get_cached c t s la lo = Some (entry_data e)"
  by (simp add: get_cached_def)

lemma get_cached_Some:
  "get_cached c t s la lo = Some d \<longleftrightarrow>
   (\<exists>e. c (s, la, lo) = Some e \<and> t - ts e \<le> CACHE_TTL \<and> d = entry_data e)"
  by (auto simp: get_cached_def split: option.splits)

lemma same_value_eq: "\<not> is_nan a \<Longrightarrow> same_value a b \<Longrightarrow> b = a"
  by (cases a) (auto simp: same_value_def)

text \<open>
  Claim C3, as stated, fails for a key with a NaN coordinate: a record stored under
  \<open>(current, nan, 37.5)\<close> by one request is not found one microsecond later by a
  request for the same coordinates, which holds another NaN object.
\<close>

theorem nan_key_counterexample:
  "same_value (NaN 1) (NaN 2) \<and>
   get_cached
     (set_cached Map.empty 0 (ascii ''current'') (NaN 1) (Finite 37.5) (Current [(''wind'', None)]))
     1 (ascii ''current'') (NaN 2) (Finite 37.5) = None"
  by (simp add: same_value_def get_cached_def set_cached_def)

text \<open>
  Claim C3, amended. Let neither coordinate of the key be NaN, and let the key be given
  again with the same scope and the same two coordinates. A record stored at time
  \<open>t0\<close> is returned unchanged by a lookup at any time \<open>t\<close> with \<open>t - t0\<close> at most
  fifteen minutes; a lookup later than that returns nothing, and so does the lookup of
  a key that has no entry. A second store under the key replaces the entry: the cache
  is what it would be had only the second store happened, the entry is exactly the new
  timestamp and the new record, and that record is what a lookup within its
  time-to-live returns.
\<close>

theorem cache_round_trip:
  "\<not> is_nan la \<and> \<not> is_nan lo \<and> same_value la la' \<and> same_value lo lo' \<longrightarrow>
   (t - t0 \<le> CACHE_TTL \<longrightarrow> get_cached (set_cached c t0 s la lo d) t s la' lo' = Some d) \<and>
   (t - t0 > CACHE_TTL \<longrightarrow> get_cached (set_cached c t0 s la lo d) t s la' lo' = None) \<and>
   (c (s, la, lo) = None \<longrightarrow> get_cached c t s la' lo' = None) \<and>
   set_cached (set_cached c t0 s la lo d) t1 s la' lo' d' = set_cached c t1 s la lo d' \<and>
   set_cached (set_cached c t0 s la lo d) t1 s la' lo' d' (s, la, lo) =
      Some \<lparr>ts = t1, entry_data = d'\<rparr> \<and>
   (t - t1 \<le> CACHE_TTL \<longrightarrow>
      get_cached (set_cached (set_cached c t0 s la lo d) t1 s la' lo' d') t s la lo = Some d')"
proof
  assume h: "\<not> is_nan la \<and> \<not> is_nan lo \<and> same_value la la' \<and> same_value lo lo'"
  then have "la' = la" and "lo' = lo" by (auto dest: same_value_eq)
  then show "(t - t0 \<le> CACHE_TTL \<longrightarrow> get_cached (set_cached c t0 s la lo d) t s la' lo' = Some d) \<and>
   (t - t0 > CACHE_TTL \<longrightarrow> get_cached (set_cached c t0 s la lo d) t s la' lo' = None) \<and>
   (c (s, la, lo) = None \<longrightarrow> get_cached c t s la' lo' = None) \<and>
   set_cached (set_cached c t0 s la lo d) t1 s la' lo' d' = set_cached c t1 s la lo d' \<and>
   set_cached (set_cached c t0 s la lo d) t1 s la' lo' d' (s, la, lo) =
      Some \<lparr>ts = t1, entry_data = d'\<rparr> \<and>
   (t - t1 \<le> CACHE_TTL \<longrightarrow>
      get_cached (set_cached (set_cached c t0 s la lo d) t1 s la' lo' d') t s la lo = Some d')"
    by (simp add: get_cached_def set_cached_def)
qed

theorem cache_round_trip_witness:
  "get_cached
     (set_cached Map.empty 0 (ascii ''current'') (Finite 55.75) (Finite 0) (Current [(''wind'', None)]))
     900000000 (ascii ''current'') (Finite 55.75) (Finite (- 0)) = Some (Current [(''wind'', None)]) \<and>
   get_cached
     (set_cached Map.empty 0 (ascii ''current'') (Finite 55.75) (Finite 0) (Current [(''wind'', None)]))
     900000001 (ascii ''current'') (Finite 55.75) (Finite (- 0)) = None \<and>
   get_cached (Map.empty :: payload cache) 900000000 (ascii ''current'') (Finite 55.75)
     (Finite (- 0)) = None \<and>
   get_cached
     (set_cached
        (set_cached Map.empty 0 (ascii ''current'') (Finite 55.75) (Finite 0)
           (Current [(''wind'', None)]))
        7 (ascii ''current'') (Finite 55.75) (Finite (- 0))
        (Current [(''humidity'', Some [54, 53])]))
     900000000 (ascii ''current'') (Finite 55.75) (Finite 0) =
       Some (Current [(''humidity'', Some [54, 53])])"
proof -
  have h: "\<not> is_nan (Finite 55.75) \<and> \<not> is_nan (Finite 0) \<and>
           same_value (Finite 55.75) (Finite 55.75) \<and> same_value (Finite 0) (Finite (- 0))"
    by (simp add: same_value_def)
  have a: "(900000000::int) - 0 \<le> CACHE_TTL" and b: "(900000001::int) - 0 > CACHE_TTL"
    and c: "(900000000::int) - 7 \<le> CACHE_TTL"
    by (simp_all add: CACHE_TTL_def)
  have e: "(Map.empty :: payload cache) (ascii ''current'', Finite 55.75, Finite 0) = None"
    by simp
  note w1 = cache_round_trip [of "Finite 55.75" "Finite 0" "Finite 55.75" "Finite (- 0)"
      900000000 0 Map.empty "ascii ''current''" "Current [(''wind'', None)]" 7
      "Current [(''humidity'', Some [54, 53])]", rule_format, OF h]
  note w2 = cache_round_trip [of "Finite 55.75" "Finite 0" "Finite 55.75" "Finite (- 0)"
      900000001 0 Map.empty "ascii ''current''" "Current [(''wind'', None)]" 7
      "Current [(''humidity'', Some [54, 53])]", rule_format, OF h]
  from w1 a have 1: "get_cached
     (set_cached Map.empty 0 (ascii ''current'') (Finite 55.75) (Finite 0) (Current [(''wind'', None)]))
     900000000 (ascii ''current'') (Finite 55.75) (Finite (- 0)) = Some (Current [(''wind'', None)])"
    by blast
  from w2 b have 2: "get_cached
     (set_cached Map.empty 0 (ascii ''current'') (Finite 55.75) (Finite 0) (Current [(''wind'', None)]))
     900000001 (ascii ''current'') (Finite 55.75) (Finite (- 0)) = None"
    by blast
  from w1 e have 3: "get_cached (Map.empty :: payload cache) 900000000 (ascii ''current'')
     (Finite 55.75) (Finite (- 0)) = None"
    by blast
  from w1 c have 4: "get_cached
     (set_cached
        (set_cached Map.empty 0 (ascii ''current'') (Finite 55.75) (Finite 0)
           (Current [(''wind'', None)]))
        7 (ascii ''current'') (Finite 55.75) (Finite (- 0))
        (Current [(''humidity'', Some [54, 53])]))
     900000000 (ascii ''current'') (Finite 55.75) (Finite 0) =
       Some (Current [(''humidity'', Some [54, 53])])"
    by blast
  from 1 2 3 4 show ?thesis by blast
qed

section \<open>The endpoints after a failure\<close>

lemma hit_Some: "hit x = Some d \<longleftrightarrow> x = Some d \<and> truthy (Some d)"
  by (auto simp: hit_def)

lemma endpoint_failed:
  "failed p f err \<Longrightarrow>
   endpoint s u p c t1 t2 la lo f =
     (case hit (get_cached c t1 s la lo) of
        Some d \<Rightarrow> (Inr (from_cache u la lo d), c)
      | None \<Rightarrow> (case hit (get_cached c t2 s la lo) of
          Some d \<Rightarrow> (Inr (from_cache u la lo d), c)
        | None \<Rightarrow> (Inl err, c)))"
  by (auto simp: failed_def endpoint_def split: sum.splits error.splits option.splits)

lemma endpoint_sequential:
  assumes "failed p f err" "t1 \<le> t2" "get_cached c t1 s la lo = None"
  shows "get_cached c t2 s la lo = None \<and> endpoint s u p c t1 t2 la lo f = (Inl err, c)"
proof -
  have "get_cached c t2 s la lo = None"
    using assms(2,3) by (auto simp: get_cached_def split: option.splits if_splits)
  with assms show ?thesis by (simp add: endpoint_failed[OF assms(1)] hit_def)
qed

lemma endpoint_cached_fresh:
  assumes "endpoint s u p c t1 t2 la lo f = (Inr r, c')" "resp_cached r"
  shows "\<exists>e. c (s, la, lo) = Some e \<and> resp_data r = entry_data e \<and>
             (t1 - ts e \<le> CACHE_TTL \<or> t2 - ts e \<le> CACHE_TTL)"
  using assms
  by (auto simp: endpoint_def hit_Some get_cached_Some from_cache_def
      split: option.splits sum.splits error.splits)

lemma parse_month_empty: "parse_month U [] = Inl (ValueError ''Month block not found in the page'')"
  by (simp add: parse_month_def month_article_def select_one_def select_def soup_def)

text \<open>
  Claim C1. After a failed fetch or a failed extraction both handlers look the key up
  again, but with the same \<open>_get_cached\<close> as before, which returns nothing for an
  entry older than the time-to-live. So the entry that the claim says is served
  regardless of its age is not: here each key has an entry stored at time 0, the
  request arrives one microsecond after the fifteen minutes, and the handlers answer
  502 for the failed fetch and 500 for the failed extraction.
\<close>

theorem stale_entry_not_served:
  "set_cached Map.empty 0 (ascii ''current'') (Finite 55.75) (Finite 37.5)
     (Current [(''wind'', None)]) (ascii ''current'', Finite 55.75, Finite 37.5) =
     Some \<lparr>ts = 0, entry_data = Current [(''wind'', None)]\<rparr> \<and>
   fst (get_weather_total basic_unicode
         (set_cached Map.empty 0 (ascii ''current'') (Finite 55.75) (Finite 37.5)
            (Current [(''wind'', None)]))
         900000001 900000001 (Finite 55.75) (Finite 37.5) (Inl [])) =
     Inl (HTTPException 502 (ascii ''Failed to fetch source page: '')) \<and>
   set_cached Map.empty 0 (ascii ''month'') (Finite 55.75) (Finite 37.5)
     (Month [[(''label'', None)]]) (ascii ''month'', Finite 55.75, Finite 37.5) =
     Some \<lparr>ts = 0, entry_data = Month [[(''label'', None)]]\<rparr> \<and>
   fst (get_weather_month basic_unicode
         (set_cached Map.empty 0 (ascii ''month'') (Finite 55.75) (Finite 37.5)
            (Month [[(''label'', None)]]))
         900000001 900000001 (Finite 55.75) (Finite 37.5) (Inr [])) =
     Inl (HTTPException 500 (ascii ''Month block not found in the page''))"
  by (simp add: get_weather_total_def get_weather_month_def endpoint_def get_cached_def
      set_cached_def hit_def parse_month_empty CACHE_TTL_def)

text \<open>
  Claim C10. The handler runs alone and its clock does not go backwards between the two
  lookups (\<open>t1 \<le> t2\<close>). If the first lookup returns nothing and the fetch or the
  extraction fails, then the lookup after the failure returns nothing either, and the
  handler raises 502 for the fetch and 500 for the extraction, leaving the cache as it
  was. And whenever either handler answers from the cache, the entry it serves was
  within its time-to-live at one of the two lookups: an expired entry is never served.
\<close>

theorem sequential_failure_raises:
  "(t1 \<le> t2 \<and> get_cached c t1 (ascii ''current'') la lo = None \<and> total_failed U f err \<longrightarrow>
      get_cached c t2 (ascii ''current'') la lo = None \<and>
      get_weather_total U c t1 t2 la lo f = (Inl err, c)) \<and>
   (t1 \<le> t2 \<and> get_cached c t1 (ascii ''month'') la lo = None \<and> month_failed U f err \<longrightarrow>
      get_cached c t2 (ascii ''month'') la lo = None \<and>
      get_weather_month U c t1 t2 la lo f = (Inl err, c)) \<and>
   (get_weather_total U c t1 t2 la lo f = (Inr r, c') \<and> resp_cached r \<longrightarrow>
      (\<exists>e. c (ascii ''current'', la, lo) = Some e \<and> resp_data r = entry_data e \<and>
           (t1 - ts e \<le> CACHE_TTL \<or> t2 - ts e \<le> CACHE_TTL))) \<and>
   (get_weather_month U c t1 t2 la lo f = (Inr r, c') \<and> resp_cached r \<longrightarrow>
      (\<exists>e. c (ascii ''month'', la, lo) = Some e \<and> resp_data r = entry_data e \<and>
           (t1 - ts e \<le> CACHE_TTL \<or> t2 - ts e \<le> CACHE_TTL)))"
proof (intro conjI impI)
  assume "t1 \<le> t2 \<and> get_cached c t1 (ascii ''current'') la lo = None \<and> total_failed U f err"
  then show "get_cached c t2 (ascii ''current'') la lo = None"
    and "get_weather_total U c t1 t2 la lo f = (Inl err, c)"
    unfolding get_weather_total_def total_failed_def
    using endpoint_sequential by blast+
next
  assume "t1 \<le> t2 \<and> get_cached c t1 (ascii ''month'') la lo = None \<and> month_failed U f err"
  then show "get_cached c t2 (ascii ''month'') la lo = None"
    and "get_weather_month U c t1 t2 la lo f = (Inl err, c)"
    unfolding get_weather_month_def month_failed_def
    using endpoint_sequential by blast+
next
  assume "get_weather_total U c t1 t2 la lo f = (Inr r, c') \<and> resp_cached r"
  then show "\<exists>e. c (ascii ''current'', la, lo) = Some e \<and> resp_data r = entry_data e \<and>
           (t1 - ts e \<le> CACHE_TTL \<or> t2 - ts e \<le> CACHE_TTL)"
    unfolding get_weather_total_def by (intro endpoint_cached_fresh) auto
next
  assume "get_weather_month U c t1 t2 la lo f = (Inr r, c') \<and> resp_cached r"
  then show "\<exists>e. c (ascii ''month'', la, lo) = Some e \<and> resp_data r = entry_data e \<and>
           (t1 - ts e \<le> CACHE_TTL \<or> t2 - ts e \<le> CACHE_TTL)"
    unfolding get_weather_month_def by (intro endpoint_cached_fresh) auto
qed

theorem sequential_failure_raises_witness:
  "get_cached (set_cached Map.empty 0 (ascii ''current'') (Finite 55.75) (Finite 37.5) (Current [(''wind'', None)]))
      900000002 (ascii ''current'') (Finite 55.75) (Finite 37.5) = None \<and>
   get_weather_total basic_unicode
     (set_cached Map.empty 0 (ascii ''current'') (Finite 55.75) (Finite 37.5) (Current [(''wind'', None)]))
     900000001 900000002 (Finite 55.75) (Finite 37.5) (Inl []) =
     (Inl (HTTPException 502 (ascii ''Failed to fetch source page: '')),
      set_cached Map.empty 0 (ascii ''current'') (Finite 55.75) (Finite 37.5) (Current [(''wind'', None)])) \<and>
   get_weather_month basic_unicode
     (set_cached Map.empty 0 (ascii ''month'') (Finite 55.75) (Finite 37.5) (Month [[(''label'', None)]]))
     900000001 900000002 (Finite 55.75) (Finite 37.5) (Inr []) =
     (Inl (HTTPException 500 (ascii ''Month block not found in the page'')),
      set_cached Map.empty 0 (ascii ''month'') (Finite 55.75) (Finite 37.5) (Month [[(''label'', None)]])) \<and>
   (\<exists>e. set_cached Map.empty 0 (ascii ''current'') (Finite 55.75) (Finite 37.5) (Current [(''wind'', None)])
          (ascii ''current'', Finite 55.75, Finite 37.5) = Some e \<and>
        Current [(''wind'', None)] = entry_data e \<and>
        (5 - ts e \<le> CACHE_TTL \<or> 6 - ts e \<le> CACHE_TTL))"
  using
    sequential_failure_raises [of 900000001 900000002
      "set_cached Map.empty 0 (ascii ''current'') (Finite 55.75) (Finite 37.5) (Current [(''wind'', None)])"
      "Finite 55.75" "Finite 37.5" basic_unicode "Inl []"
      "HTTPException 502 (ascii ''Failed to fetch source page: '')"]
    sequential_failure_raises [of 900000001 900000002
      "set_cached Map.empty 0 (ascii ''month'') (Finite 55.75) (Finite 37.5) (Month [[(''label'', None)]])"
      "Finite 55.75" "Finite 37.5" basic_unicode "Inr []"
      "HTTPException 500 (ascii ''Month block not found in the page'')"]
    sequential_failure_raises [of 5 6
      "set_cached Map.empty 0 (ascii ''current'') (Finite 55.75) (Finite 37.5) (Current [(''wind'', None)])"
      "Finite 55.75" "Finite 37.5" basic_unicode "Inl []"
      "HTTPException 502 (ascii ''Failed to fetch source page: '')"
      "from_cache (TotalUrl (Finite 55.75) (Finite 37.5)) (Finite 55.75) (Finite 37.5) (Current [(''wind'', None)])"
      "set_cached Map.empty 0 (ascii ''current'') (Finite 55.75) (Finite 37.5) (Current [(''wind'', None)])"]
  by (simp add: total_failed_def month_failed_def failed_def parse_month_empty
      get_cached_def get_weather_total_def endpoint_def hit_def from_cache_def
      set_cached_def CACHE_TTL_def)


section \<open>The matcher and the strings it accepts\<close>

lemma accepts_Opt_skip: "accepts r m \<Longrightarrow> accepts (Opt p # r) m"
  by (cases m) auto

lemma re_match_sound: "re_match pat s = Some m \<Longrightarrow> accepts pat m \<and> (\<exists>post. s = m @ post)"
  by (induction pat s arbitrary: m rule: re_match.induct)
     (auto split: if_splits option.splits simp: accepts_Opt_skip)

lemma re_match_complete: "accepts pat m \<Longrightarrow> re_match pat (m @ post) \<noteq> None"
proof (induction pat m arbitrary: post rule: accepts.induct)
  case (1 m)
  then show ?case by simp
next
  case (2 p r)
  then show ?case by simp
next
  case (3 p r c cs)
  then show ?case by auto
next
  case (4 p r)
  from 4(2) have "accepts r []" by simp
  from 4(1)[OF this] have "re_match r ([] @ post) \<noteq> None" .
  then show ?case by (cases post) (auto split: option.splits)
next
  case (5 p r c cs)
  show ?case
  proof (cases "p c \<and> accepts r cs")
    case True
    with 5(1) have "re_match r (cs @ post) \<noteq> None" by blast
    with True show ?thesis by auto
  next
    case False
    with 5(3) have "accepts r (c # cs)" by auto
    from 5(2)[OF this] have "re_match r ((c # cs) @ post) \<noteq> None" .
    then show ?thesis by (auto split: option.splits)
  qed
next
  case (6 p r)
  then show ?case by simp
next
  case (7 p r c cs)
  from 7(3) have pc: "p c" by simp
  show ?case
  proof (cases "re_match (Plus p # r) (cs @ post)")
    case (Some a)
    with pc show ?thesis by simp
  next
    case None
    with 7(1) have "\<not> accepts (Plus p # r) cs" by blast
    with 7(3) have "accepts r cs" by simp
    from 7(2)[OF this] have "re_match r (cs @ post) \<noteq> None" .
    with pc None show ?thesis by auto
  qed
qed

lemma re_search_sound:
  "re_search pat s = Some m \<Longrightarrow>
     \<exists>pre post. s = pre @ m @ post \<and> accepts pat m \<and>
       (\<forall>pre' m' post'. s = pre' @ m' @ post' \<and> accepts pat m' \<longrightarrow> length pre \<le> length pre')"
proof (induction pat s rule: re_search.induct)
  case (1 pat)
  then show ?case using re_match_sound[of pat "[]" m] by auto
next
  case (2 pat c cs)
  show ?case
  proof (cases "re_match pat (c # cs)")
    case (Some m0)
    with 2 have "m0 = m" by simp
    with Some re_match_sound[of pat "c # cs" m] obtain post where "accepts pat m" "c # cs = [] @ m @ post" by auto
    then show ?thesis by (metis length_0_conv list.size(3) le0)
  next
    case None
    with 2 have rs: "re_search pat cs = Some m" by simp
    from 2(1)[OF None rs] obtain pre post where
      p: "cs = pre @ m @ post" "accepts pat m"
      "\<forall>pre' m' post'. cs = pre' @ m' @ post' \<and> accepts pat m' \<longrightarrow> length pre \<le> length pre'" by blast
    have "\<forall>pre' m' post'. c # cs = pre' @ m' @ post' \<and> accepts pat m' \<longrightarrow> length (c # pre) \<le> length pre'"
    proof (intro allI impI)
      fix pre' m' post' assume a: "c # cs = pre' @ m' @ post' \<and> accepts pat m'"
      show "length (c # pre) \<le> length pre'"
      proof (cases pre')
        case Nil
        with a have "re_match pat (m' @ post') \<noteq> None" using re_match_complete by blast
        with a Nil None show ?thesis by simp
      next
        case (Cons x xs)
        with a have "cs = xs @ m' @ post'" by simp
        with p(3) a have "length pre \<le> length xs" by blast
        with Cons show ?thesis by simp
      qed
    qed
    with p(1,2) show ?thesis by (metis append_Cons)
  qed
qed

lemma re_search_none:
  "re_search pat s = None \<Longrightarrow> s = pre @ m @ post \<Longrightarrow> \<not> accepts pat m"
proof (induction pat s arbitrary: pre rule: re_search.induct)
  case (1 pat)
  then show ?case using re_match_complete[of pat "[]" "[]"] by auto
next
  case (2 pat c cs)
  from 2(2) have n: "re_match pat (c # cs) = None" "re_search pat cs = None" by (auto split: option.splits)
  show ?case
  proof (cases pre)
    case Nil
    with 2(3) n(1) re_match_complete[of pat m post] show ?thesis by auto
  next
    case (Cons x xs)
    with 2(3) have "cs = xs @ m @ post" by simp
    with 2(1)[OF n] show ?thesis by blast
  qed
qed


lemma re_match_Plus:
  "re_match [Plus p] s = (if s \<noteq> [] \<and> p (hd s) then Some (takeWhile p s) else None)"
proof (induction s)
  case Nil
  then show ?case by simp
next
  case (Cons a s)
  then show ?case by (cases s) auto
qed

lemma re_search_Plus:
  "re_search [Plus p] s =
     (if \<exists>c \<in> set s. p c then Some (takeWhile p (dropWhile (\<lambda>c. \<not> p c) s)) else None)"
proof (induction s)
  case Nil
  then show ?case by simp
next
  case (Cons a s)
  then show ?case by (simp del: re_match.simps add: re_match_Plus)
qed

lemma accepts_Plus_One:
  "accepts [Plus p, One q] m \<longleftrightarrow>
     (\<exists>ds c. m = ds @ [c] \<and> ds \<noteq> [] \<and> (\<forall>d \<in> set ds. p d) \<and> q c)"
proof (induction m)
  case Nil
  then show ?case by simp
next
  case (Cons a m)
  show ?case
  proof
    assume "accepts [Plus p, One q] (a # m)"
    then have pa: "p a" and d: "accepts [Plus p, One q] m \<or> accepts [One q] m" by auto
    from d show "\<exists>ds c. a # m = ds @ [c] \<and> ds \<noteq> [] \<and> (\<forall>d \<in> set ds. p d) \<and> q c"
    proof
      assume "accepts [Plus p, One q] m"
      with Cons obtain ds c where "m = ds @ [c]" "ds \<noteq> []" "\<forall>d \<in> set ds. p d" "q c" by blast
      with pa have "a # m = (a # ds) @ [c] \<and> a # ds \<noteq> [] \<and> (\<forall>d \<in> set (a # ds). p d) \<and> q c" by simp
      then show ?thesis by blast
    next
      assume "accepts [One q] m"
      then obtain c where "m = [c]" "q c" by (cases m) auto
      with pa have "a # m = [a] @ [c] \<and> [a] \<noteq> [] \<and> (\<forall>d \<in> set [a]. p d) \<and> q c" by simp
      then show ?thesis by blast
    qed
  next
    assume "\<exists>ds c. a # m = ds @ [c] \<and> ds \<noteq> [] \<and> (\<forall>d \<in> set ds. p d) \<and> q c"
    then obtain ds c where h: "a # m = ds @ [c]" "ds \<noteq> []" "\<forall>d \<in> set ds. p d" "q c" by blast
    then obtain ds' where ds: "ds = a # ds'" by (cases ds) auto
    with h have m: "m = ds' @ [c]" and pa: "p a" and pds: "\<forall>d \<in> set ds'. p d" by auto
    show "accepts [Plus p, One q] (a # m)"
    proof (cases ds')
      case Nil
      with m pa h(4) show ?thesis by simp
    next
      case (Cons x xs)
      with m pds h(4) Cons.IH have "accepts [Plus p, One q] m" by blast
      with pa show ?thesis by simp
    qed
  qed
qed

lemma accepts_temperature:
  "accepts (temperature_re U) m \<longleftrightarrow> temperature_shape U m"
proof -
  let ?r = "[Plus (is_digit U), One (\<lambda>c. c = degree_glyph)]"
  have r: "\<And>x. accepts ?r x \<longleftrightarrow>
      (\<exists>ds. x = ds @ [degree_glyph] \<and> ds \<noteq> [] \<and> (\<forall>d \<in> set ds. is_digit U d))"
    by (auto simp: accepts_Plus_One)
  have o: "accepts (Opt is_sign # ?r) m \<longleftrightarrow>
      accepts ?r m \<or> (\<exists>c cs. m = c # cs \<and> is_sign c \<and> accepts ?r cs)"
    by (cases m) auto
  show ?thesis
    unfolding temperature_re_def o r temperature_shape_def is_sign_def
    by (auto simp: Cons_eq_append_conv) (metis append_Cons append_Nil)+
qed


lemma accepts_One_single: "accepts [One q] m \<longleftrightarrow> (\<exists>c. m = [c] \<and> q c)"
  by (cases m) auto

lemma accepts_Plus_One_length: "accepts [Plus p, One q] m \<Longrightarrow> \<exists>a b r. m = a # b # r \<and> p a"
  by (cases m; simp) (metis accepts.simps(2,6) list.exhaust)

lemma accepts_Plus_One_unique:
  assumes "\<forall>c. q c \<longrightarrow> \<not> p c"
  shows "accepts [Plus p, One q] m \<Longrightarrow> accepts [Plus p, One q] m' \<Longrightarrow>
         m @ x = m' @ y \<Longrightarrow> m = m'"
proof (induction m arbitrary: m')
  case Nil
  then show ?case by simp
next
  case (Cons a m)
  from Cons.prems(2) obtain a' n where m': "m' = a' # n" by (cases m') auto
  with Cons.prems(3) have aa: "a' = a" and eq: "m @ x = n @ y" by auto
  from Cons.prems(1) have d1: "accepts [Plus p, One q] m \<or> accepts [One q] m" by simp
  from Cons.prems(2) m' have d2: "accepts [Plus p, One q] n \<or> accepts [One q] n" by simp
  have "m = n"
  proof (cases "accepts [Plus p, One q] m")
    case True
    show ?thesis
    proof (cases "accepts [Plus p, One q] n")
      case True
      with \<open>accepts [Plus p, One q] m\<close> Cons.IH eq show ?thesis by blast
    next
      case False
      with d2 obtain c where n: "n = [c]" "q c" by (auto simp: accepts_One_single)
      from True obtain u v r where "m = u # v # r" "p u" using accepts_Plus_One_length by blast
      with eq n have "u = c" by simp
      with \<open>p u\<close> \<open>q c\<close> assms show ?thesis by blast
    qed
  next
    case False
    with d1 obtain c where m: "m = [c]" "q c" by (auto simp: accepts_One_single)
    show ?thesis
    proof (cases "accepts [Plus p, One q] n")
      case True
      then obtain u v r where "n = u # v # r" "p u" using accepts_Plus_One_length by blast
      with eq m have "u = c" by simp
      with \<open>p u\<close> \<open>q c\<close> assms show ?thesis by blast
    next
      case False
      with d2 obtain c' where "n = [c']" by (auto simp: accepts_One_single)
      with eq m show ?thesis by simp
    qed
  qed
  with m' aa show ?case by simp
qed

lemma accepts_temperature_unique:
  assumes nd: "\<not> is_digit U degree_glyph"
    and a: "accepts (temperature_re U) m" and b: "accepts (temperature_re U) m'"
    and eq: "m @ x = m' @ y"
  shows "m = m'"
proof -
  let ?r = "[Plus (is_digit U), One (\<lambda>c. c = degree_glyph)]"
  have dis: "\<forall>c. c = degree_glyph \<longrightarrow> \<not> is_digit U c" using nd by simp
  note uniq = accepts_Plus_One_unique[of "\<lambda>c. c = degree_glyph" "is_digit U", OF dis]
  from a obtain c cs where m: "m = c # cs" by (cases m) (auto simp: temperature_re_def)
  from b obtain c' cs' where m': "m' = c' # cs'" by (cases m') (auto simp: temperature_re_def)
  from eq m m' have cc: "c' = c" and eq': "cs @ x = cs' @ y" by auto
  from a m have da: "(is_sign c \<and> accepts ?r cs) \<or> accepts ?r (c # cs)"
    by (simp add: temperature_re_def)
  from b m' cc have db: "(is_sign c \<and> accepts ?r cs') \<or> accepts ?r (c # cs')"
    by (simp add: temperature_re_def)
  have "cs = cs'"
  proof (cases "accepts ?r (c # cs)")
    case True
    show ?thesis
    proof (cases "accepts ?r (c # cs')")
      case True
      with \<open>accepts ?r (c # cs)\<close> uniq[of "c # cs" "c # cs'" x y] eq' show ?thesis by simp
    next
      case False
      with db have s2: "accepts ?r cs'" by blast
      from True have "accepts ?r cs \<or> accepts [One (\<lambda>c. c = degree_glyph)] cs" by simp
      then show ?thesis
      proof
        assume "accepts ?r cs"
        with s2 uniq[of cs cs' x y] eq' show ?thesis by simp
      next
        assume "accepts [One (\<lambda>c. c = degree_glyph)] cs"
        then have cs: "cs = [degree_glyph]" by (auto simp: accepts_One_single)
        from s2 obtain u v r where "cs' = u # v # r" "is_digit U u"
          using accepts_Plus_One_length by blast
        with eq' cs nd show ?thesis by simp
      qed
    qed
  next
    case False
    with da have s1: "accepts ?r cs" by blast
    show ?thesis
    proof (cases "accepts ?r (c # cs')")
      case True
      then have "accepts ?r cs' \<or> accepts [One (\<lambda>c. c = degree_glyph)] cs'" by simp
      then show ?thesis
      proof
        assume "accepts ?r cs'"
        with s1 uniq[of cs cs' x y] eq' show ?thesis by simp
      next
        assume "accepts [One (\<lambda>c. c = degree_glyph)] cs'"
        then have cs': "cs' = [degree_glyph]" by (auto simp: accepts_One_single)
        from s1 obtain u v r where "cs = u # v # r" "is_digit U u"
          using accepts_Plus_One_length by blast
        with eq' cs' nd show ?thesis by simp
      qed
    next
      case False
      with db have "accepts ?r cs'" by blast
      with s1 uniq[of cs cs' x y] eq' show ?thesis by simp
    qed
  qed
  with m m' cc show ?thesis by simp
qed


lemma temperature_shape_nonempty: "temperature_shape U m \<Longrightarrow> m \<noteq> []"
  by (auto simp: temperature_shape_def)

lemma extract_temperature_None:
  "extract_temperature U (Some t) = None \<longleftrightarrow>
      \<not> (\<exists>pre m post. t = pre @ m @ post \<and> temperature_shape U m)"
proof (cases "t = []")
  case True
  then show ?thesis
    by (auto simp: extract_temperature_def dest: temperature_shape_nonempty)
next
  case False
  show ?thesis
  proof
    assume "extract_temperature U (Some t) = None"
    with False have "re_search (temperature_re U) t = None"
      by (simp add: extract_temperature_def)
    then show "\<not> (\<exists>pre m post. t = pre @ m @ post \<and> temperature_shape U m)"
      using re_search_none accepts_temperature by blast
  next
    assume n: "\<not> (\<exists>pre m post. t = pre @ m @ post \<and> temperature_shape U m)"
    show "extract_temperature U (Some t) = None"
    proof (rule ccontr)
      assume "extract_temperature U (Some t) \<noteq> None"
      with False obtain m where "re_search (temperature_re U) t = Some m"
        by (auto simp: extract_temperature_def)
      from re_search_sound[OF this] n show False
        using accepts_temperature by blast
    qed
  qed
qed

lemma extract_feels: "extract_temperature basic_unicode (Some feels_text) = Some [43, 51, 176]"
  by (simp add: extract_temperature_def feels_text_def temperature_re_def basic_unicode_def
      is_sign_def degree_glyph_def)

lemma extract_no_data: "extract_temperature basic_unicode (Some no_data_text) = None"
  by (simp add: extract_temperature_def no_data_text_def temperature_re_def basic_unicode_def
      is_sign_def degree_glyph_def)

section \<open>The normalizer helpers\<close>

text \<open>
  Claim C7. On a present string, the temperature extractor returns nothing exactly when
  no substring of the text is an optional sign, one or more digits and the degree glyph.
  When it returns \<open>m\<close>, then \<open>m\<close> is such a substring of the text, returned as it
  stands, no such substring starts further left, and (the degree glyph not being a
  digit) \<open>m\<close> is the only such substring that starts at that position.
\<close>

theorem extract_temperature_first_match:
  "(extract_temperature U (Some t) = None \<longleftrightarrow>
      \<not> (\<exists>pre m post. t = pre @ m @ post \<and> temperature_shape U m)) \<and>
   (extract_temperature U (Some t) = Some m \<longrightarrow>
      (\<exists>pre post. t = pre @ m @ post \<and> temperature_shape U m \<and>
         (\<forall>pre' m' post'. t = pre' @ m' @ post' \<and> temperature_shape U m' \<longrightarrow>
            length pre \<le> length pre' \<and>
            (length pre' = length pre \<and> \<not> is_digit U degree_glyph \<longrightarrow> m' = m))))"
proof (intro conjI impI)
  show "extract_temperature U (Some t) = None \<longleftrightarrow>
      \<not> (\<exists>pre m post. t = pre @ m @ post \<and> temperature_shape U m)"
    by (rule extract_temperature_None)
next
  assume "extract_temperature U (Some t) = Some m"
  then have "re_search (temperature_re U) t = Some m"
    by (auto simp: extract_temperature_def split: if_splits)
  from re_search_sound[OF this] obtain pre post where
    d: "t = pre @ m @ post" and acc: "accepts (temperature_re U) m" and
    least: "\<forall>pre' m' post'. t = pre' @ m' @ post' \<and> accepts (temperature_re U) m' \<longrightarrow>
              length pre \<le> length pre'" by blast
  have "\<forall>pre' m' post'. t = pre' @ m' @ post' \<and> temperature_shape U m' \<longrightarrow>
            length pre \<le> length pre' \<and>
            (length pre' = length pre \<and> \<not> is_digit U degree_glyph \<longrightarrow> m' = m)"
  proof (intro allI impI conjI)
    fix pre' m' post'
    assume h: "t = pre' @ m' @ post' \<and> temperature_shape U m'"
    with least show "length pre \<le> length pre'" using accepts_temperature by blast
    assume g: "length pre' = length pre \<and> \<not> is_digit U degree_glyph"
    with h d have "pre' = pre" and "m' @ post' = m @ post" by auto
    with g h acc show "m' = m"
      using accepts_temperature_unique[of U m' m post' post] accepts_temperature by blast
  qed
  with d acc show "\<exists>pre post. t = pre @ m @ post \<and> temperature_shape U m \<and>
         (\<forall>pre' m' post'. t = pre' @ m' @ post' \<and> temperature_shape U m' \<longrightarrow>
            length pre \<le> length pre' \<and>
            (length pre' = length pre \<and> \<not> is_digit U degree_glyph \<longrightarrow> m' = m))"
    using accepts_temperature by blast
qed

theorem extract_temperature_first_match_witness:
  "extract_temperature basic_unicode (Some feels_text) = Some [43, 51, 176] \<and>
   (\<exists>pre post. feels_text = pre @ [43, 51, 176] @ post \<and>
      temperature_shape basic_unicode [43, 51, 176] \<and>
      (\<forall>pre' m' post'. feels_text = pre' @ m' @ post' \<and> temperature_shape basic_unicode m' \<longrightarrow>
          length pre \<le> length pre' \<and> (length pre' = length pre \<longrightarrow> m' = [43, 51, 176]))) \<and>
   \<not> (\<exists>pre m post. no_data_text = pre @ m @ post \<and>
          temperature_shape basic_unicode m)"
  using extract_temperature_first_match [of basic_unicode feels_text "[43, 51, 176]"]
    extract_temperature_first_match [of basic_unicode
      no_data_text "[]"]
    extract_feels extract_no_data
  by (simp add: basic_unicode_def degree_glyph_def)

text \<open>
  Claim C8. On a present string, the pressure and the humidity extractor each return
  the first run of digits of the text and nothing else: what precedes the run holds no
  digit, the run holds only digits, and what follows it does not start with a digit.
  They return nothing when the text holds no digit.
\<close>

theorem pressure_humidity_first_digit_run:
  "extract_pressure U (Some t) =
     (if \<exists>c \<in> set t. is_digit U c then Some (first_digit_run U t) else None) \<and>
   extract_humidity U (Some t) =
     (if \<exists>c \<in> set t. is_digit U c then Some (first_digit_run U t) else None) \<and>
   (\<exists>pre post. t = pre @ first_digit_run U t @ post \<and>
      (\<forall>c \<in> set pre. \<not> is_digit U c) \<and> (\<forall>c \<in> set (first_digit_run U t). is_digit U c) \<and>
      (post = [] \<or> \<not> is_digit U (hd post)))"
proof (intro conjI)
  show "extract_pressure U (Some t) =
     (if \<exists>c \<in> set t. is_digit U c then Some (first_digit_run U t) else None)"
    by (simp add: extract_pressure_def digits_re_def re_search_Plus first_digit_run_def)
  show "extract_humidity U (Some t) =
     (if \<exists>c \<in> set t. is_digit U c then Some (first_digit_run U t) else None)"
    by (simp add: extract_humidity_def digits_re_def re_search_Plus first_digit_run_def)
  let ?d = "dropWhile (\<lambda>c. \<not> is_digit U c) t"
  have "t = takeWhile (\<lambda>c. \<not> is_digit U c) t @ first_digit_run U t @ dropWhile (is_digit U) ?d"
    by (simp add: first_digit_run_def)
  moreover have "\<forall>c \<in> set (takeWhile (\<lambda>c. \<not> is_digit U c) t). \<not> is_digit U c"
    by (auto dest: set_takeWhileD)
  moreover have "\<forall>c \<in> set (first_digit_run U t). is_digit U c"
    by (auto simp: first_digit_run_def dest: set_takeWhileD)
  moreover have "dropWhile (is_digit U) ?d = [] \<or> \<not> is_digit U (hd (dropWhile (is_digit U) ?d))"
    using hd_dropWhile by blast
  ultimately show "\<exists>pre post. t = pre @ first_digit_run U t @ post \<and>
      (\<forall>c \<in> set pre. \<not> is_digit U c) \<and> (\<forall>c \<in> set (first_digit_run U t). is_digit U c) \<and>
      (post = [] \<or> \<not> is_digit U (hd post))" by blast
qed

theorem pressure_humidity_first_digit_run_witness:
  "extract_pressure basic_unicode
     (Some [55, 53, 56, 32, 1084, 1084, 32, 1088, 1090, 46, 32, 1089, 1090, 46]) = Some [55, 53, 56] \<and>
   extract_humidity basic_unicode (Some [54, 53, 37]) = Some [54, 53] \<and>
   extract_pressure basic_unicode (Some [1085, 1077, 1090]) = None"
  using pressure_humidity_first_digit_run [of basic_unicode
      "[55, 53, 56, 32, 1084, 1084, 32, 1088, 1090, 46, 32, 1089, 1090, 46]"]
    pressure_humidity_first_digit_run [of basic_unicode "[54, 53, 37]"]
    pressure_humidity_first_digit_run [of basic_unicode "[1085, 1077, 1090]"]
  by (simp add: first_digit_run_def basic_unicode_def)

text \<open>
  Claim C6, as stated, fails for the wind helper, which has no pattern: the empty
  string is a present input and the helper returns nothing for it.
\<close>

theorem empty_wind_counterexample:
  "extract_wind basic_unicode (Some []) = None"
  by (simp add: extract_wind_def)

text \<open>
  Claim C6, amended. The temperature helper returns nothing if and only if the input is
  absent or holds no substring of the temperature shape; the pressure and the humidity
  helper return nothing if and only if the input is absent or holds no digit; the wind
  helper returns nothing if and only if the input is absent or the empty string.
\<close>

theorem normalizers_absent_iff:
  "(extract_temperature U x = None \<longleftrightarrow>
      x = None \<or> (\<exists>t. x = Some t \<and> \<not> (\<exists>pre m post. t = pre @ m @ post \<and> temperature_shape U m))) \<and>
   (extract_pressure U x = None \<longleftrightarrow>
      x = None \<or> (\<exists>t. x = Some t \<and> \<not> (\<exists>c \<in> set t. is_digit U c))) \<and>
   (extract_humidity U x = None \<longleftrightarrow>
      x = None \<or> (\<exists>t. x = Some t \<and> \<not> (\<exists>c \<in> set t. is_digit U c))) \<and>
   (extract_wind U x = None \<longleftrightarrow> x = None \<or> x = Some [])"
proof (cases x)
  case None
  then show ?thesis
    by (simp add: extract_temperature_def extract_pressure_def extract_humidity_def
        extract_wind_def)
next
  case (Some t)
  have "extract_pressure U (Some t) = None \<longleftrightarrow> \<not> (\<exists>c \<in> set t. is_digit U c)"
    by (simp add: extract_pressure_def digits_re_def re_search_Plus)
  moreover have "extract_humidity U (Some t) = None \<longleftrightarrow> \<not> (\<exists>c \<in> set t. is_digit U c)"
    by (simp add: extract_humidity_def digits_re_def re_search_Plus)
  moreover have "extract_wind U (Some t) = None \<longleftrightarrow> t = []"
    by (simp add: extract_wind_def)
  ultimately show ?thesis using Some extract_temperature_None[of U t] by simp
qed

theorem normalizers_absent_iff_witness:
  "extract_temperature basic_unicode None = None \<and>
   extract_pressure basic_unicode (Some [1085, 1077, 1090]) = None \<and>
   extract_humidity basic_unicode (Some [54, 53, 37]) \<noteq> None \<and>
   extract_wind basic_unicode (Some [1057, 1047]) \<noteq> None"
  using normalizers_absent_iff [of basic_unicode None]
    normalizers_absent_iff [of basic_unicode "Some [1085, 1077, 1090]"]
    normalizers_absent_iff [of basic_unicode "Some [54, 53, 37]"]
    normalizers_absent_iff [of basic_unicode "Some [1057, 1047]"]
  by (simp add: basic_unicode_def)

section \<open>The condition mapper\<close>

lemma first_match_range: "first_match rules x \<in> set (map snd rules) \<union> {''unknown''}"
proof (cases "find (rule_matches x) rules")
  case None
  then show ?thesis by (simp add: first_match_def)
next
  case (Some r)
  then have "r \<in> set rules" by (auto simp: find_Some_iff)
  with Some show ?thesis by (simp add: first_match_def)
qed

lemma first_match_none:
  "\<forall>r \<in> set rules. \<not> rule_matches x r \<Longrightarrow> first_match rules x = ''unknown''"
  by (simp add: first_match_def find_None_iff[THEN iffD2])

lemma map_condition_chain:
  "t \<noteq> [] \<Longrightarrow>
   map_condition_to_code U (Some t) = Some (ascii (first_match condition_rules (to_lower U t)))"
  by (simp add: map_condition_to_code_def first_match_def condition_rules_def
      rule_matches_def Let_def)

lemma lower_cloudy_overcast:
  "to_lower basic_unicode cloudy_overcast =
     [1086, 1073, 1083, 1072, 1095, 1085, 1086, 44, 32,
      1087, 1072, 1089, 1084, 1091, 1088, 1085, 1086]"
  by (simp add: basic_unicode_def cloudy_overcast_def lower_char_def)

lemma first_match_cloudy_overcast:
  "first_match condition_rules
     [1086, 1073, 1083, 1072, 1095, 1085, 1086, 44, 32,
      1087, 1072, 1089, 1084, 1091, 1088, 1085, 1086] = ''cloudy''"
  by (simp add: first_match_def condition_rules_def rule_matches_def
      yasno_def malooblachno_def peremennaya_oblachnost_def oblachno_s_proyasneniyami_def
      oblachno_def)

lemma no_rule_for_abc: "\<forall>r \<in> set condition_rules. \<not> rule_matches [97, 98, 99] r"
  by (simp add: condition_rules_def rule_matches_def
      yasno_def malooblachno_def peremennaya_oblachnost_def oblachno_s_proyasneniyami_def
      oblachno_def pasmurno_def nebolshoy_dozhd_def slabyy_dozhd_def dozhd_def liven_def
      silnyy_dozhd_def groza_def nebolshoy_sneg_def slabyy_sneg_def sneg_def metel_def
      silnyy_sneg_def tuman_def mgla_def dymka_def moros_def grad_def)

text \<open>
  Claim C2, as stated, fails: the empty string is a present input and is mapped to no
  code at all, not to \<open>unknown\<close>.
\<close>

theorem empty_condition_counterexample:
  "map_condition_to_code basic_unicode (Some []) = None"
  by (simp add: map_condition_to_code_def)

text \<open>
  Claim C2, amended. An absent input and the empty string yield an absent code. Every
  other input string is mapped to the code of the first rule, in the priority order of
  the table, one of whose phrases occurs in the lower-cased text, and to \<open>unknown\<close>
  when no rule has such a phrase; the result is always one of the sixteen distinct
  codes of the table or \<open>unknown\<close>, which is none of them.
\<close>

theorem map_condition_first_match:
  "map_condition_to_code U None = None \<and>
   map_condition_to_code U (Some []) = None \<and>
   (t \<noteq> [] \<longrightarrow>
      map_condition_to_code U (Some t) =
        Some (ascii (first_match condition_rules (to_lower U t)))) \<and>
   first_match condition_rules x \<in> set condition_codes \<union> {''unknown''} \<and>
   ((\<forall>r \<in> set condition_rules. \<not> rule_matches x r) \<longrightarrow>
      first_match condition_rules x = ''unknown'') \<and>
   length condition_codes = 16 \<and> distinct condition_codes \<and>
   ''unknown'' \<notin> set condition_codes"
proof (intro conjI impI)
  show "map_condition_to_code U None = None" by (simp add: map_condition_to_code_def)
  show "map_condition_to_code U (Some []) = None" by (simp add: map_condition_to_code_def)
  show "first_match condition_rules x \<in> set condition_codes \<union> {''unknown''}"
    unfolding condition_codes_def by (rule first_match_range)
  show "length condition_codes = 16" by (simp add: condition_codes_def condition_rules_def)
  show "distinct condition_codes" by (simp add: condition_codes_def condition_rules_def)
  show "''unknown'' \<notin> set condition_codes" by (simp add: condition_codes_def condition_rules_def)
next
  assume "t \<noteq> []"
  then show "map_condition_to_code U (Some t) =
        Some (ascii (first_match condition_rules (to_lower U t)))"
    by (rule map_condition_chain)
next
  assume "\<forall>r \<in> set condition_rules. \<not> rule_matches x r"
  then show "first_match condition_rules x = ''unknown''" by (rule first_match_none)
qed

theorem map_condition_first_match_witness:
  "map_condition_to_code basic_unicode (Some cloudy_overcast) = Some (ascii ''cloudy'') \<and>
   first_match condition_rules [97, 98, 99] = ''unknown''"
proof -
  have ne: "cloudy_overcast \<noteq> []" by (simp add: cloudy_overcast_def)
  from map_condition_first_match [of basic_unicode cloudy_overcast "[97, 98, 99]"] ne
  have "map_condition_to_code basic_unicode (Some cloudy_overcast) =
          Some (ascii (first_match condition_rules (to_lower basic_unicode cloudy_overcast)))"
    by blast
  moreover from map_condition_first_match [of basic_unicode cloudy_overcast "[97, 98, 99]"]
    no_rule_for_abc
  have "first_match condition_rules [97, 98, 99] = ''unknown''" by blast
  ultimately show ?thesis
    by (simp only: lower_cloudy_overcast first_match_cloudy_overcast simp_thms)
qed

section \<open>The month view\<close>

lemma month_loop_filter:
  "month_loop U blocks days = days @ map (day_fields U) (filter (\<lambda>b. \<not> climate_start b) blocks)"
  by (induction blocks arbitrary: days) auto

lemma placeholder_article:
  "month_article placeholder_page =
     Some ([Tag (ascii ''[document]'') [] [] placeholder_page], hd placeholder_page)"
  by (simp add: month_article_def select_one_def select_def soup_def placeholder_page_def
      sel_matches_def ascii_def)

lemma placeholder_blocks:
  "filter (\<lambda>b. \<not> climate_start b)
     (day_blocks ([Tag (ascii ''[document]'') [] [] placeholder_page], hd placeholder_page)) = []"
  by (simp add: day_blocks_def select_def placeholder_page_def sel_matches_def
      climate_start_def li_of_def find_parent_def ascii_def)

lemma mixed_article_found: "month_article mixed_page = Some mixed_article"
  by (simp add: month_article_def select_one_def select_def soup_def mixed_page_def
      mixed_article_def sel_matches_def ascii_def)

lemma mixed_blocks:
  "filter (\<lambda>b. \<not> climate_start b) (day_blocks mixed_article) = [second_day]"
  by (simp add: day_blocks_def select_def mixed_page_def mixed_article_def second_day_def
      sel_matches_def climate_start_def li_of_def find_parent_def ascii_def)

text \<open>
  Claim C4. When the month container is found, the result of \<open>parse_month\<close> is built
  from the day blocks whose enclosing \<open>li\<close> has no class containing \<open>climateStart\<close>,
  in document order, one entry for each of them and none for the others. If no such
  block is left (there is no day block, or every one is a placeholder) the function
  fails with "No day entries found in month view" instead of returning an empty list.
\<close>

theorem parse_month_skips_placeholders:
  "month_article doc = Some article \<longrightarrow>
     (filter (\<lambda>b. \<not> climate_start b) (day_blocks article) = [] \<longrightarrow>
        parse_month U doc = Inl (ValueError ''No day entries found in month view'')) \<and>
     (filter (\<lambda>b. \<not> climate_start b) (day_blocks article) \<noteq> [] \<longrightarrow>
        parse_month U doc =
          Inr (map (day_fields U) (filter (\<lambda>b. \<not> climate_start b) (day_blocks article))))"
  by (simp add: parse_month_def month_loop_filter Let_def)

theorem parse_month_skips_placeholders_witness:
  "parse_month basic_unicode placeholder_page =
     Inl (ValueError ''No day entries found in month view'') \<and>
   parse_month basic_unicode mixed_page = Inr [day_fields basic_unicode second_day]"
  using parse_month_skips_placeholders [of placeholder_page
      "([Tag (ascii ''[document]'') [] [] placeholder_page], hd placeholder_page)" basic_unicode]
    parse_month_skips_placeholders [of mixed_page mixed_article basic_unicode]
    placeholder_article placeholder_blocks mixed_article_found mixed_blocks
  by simp

section \<open>The fact block\<close>

lemma unrelated_no_wrap:
  "wrap_exact unrelated_page = None \<and> wrap_by_substring unrelated_page = None \<and>
   wrap_by_value_span unrelated_page = None"
  by (simp add: wrap_exact_def wrap_by_substring_def wrap_by_value_span_def select_one_def
      select_def find_class_contains_def soup_def unrelated_page_def sel_matches_def ascii_def)

text \<open>
  Claim C5. If none of the three searches finds the fact block (the exact class, a
  \<open>div\<close> with a class containing the stable part, the \<open>div\<close> above the temperature
  value), \<open>parse_weather\<close> fails with "Weather block not found in the page"; it
  returns no record then, and this is the only way it fails.
\<close>

theorem parse_weather_block_not_found:
  "(wrap_exact doc = None \<and> wrap_by_substring doc = None \<and> wrap_by_value_span doc = None \<longrightarrow>
      parse_weather U doc = Inl (ValueError ''Weather block not found in the page'')) \<and>
   (parse_weather U doc = Inl e \<longleftrightarrow>
      wrap_exact doc = None \<and> wrap_by_substring doc = None \<and> wrap_by_value_span doc = None \<and>
      e = ValueError ''Weather block not found in the page'')"
  by (auto simp: parse_weather_def Let_def split: option.splits)

theorem parse_weather_block_not_found_witness:
  "parse_weather basic_unicode unrelated_page =
     Inl (ValueError ''Weather block not found in the page'')"
  using parse_weather_block_not_found [of unrelated_page basic_unicode] unrelated_no_wrap
  by simp


section \<open>Detail items by position\<close>

lemma above_single: "above [c] a \<longleftrightarrow> (\<exists>p \<in> set a. matches c p)"
  by (induction a) auto

lemma walk_above:
  "(a, n) \<in> set (walk anc x) \<Longrightarrow> above [c] a \<Longrightarrow> above [c] anc \<or> occurs c x"
proof (induction anc x arbitrary: a n rule: walk.induct)
  case (1 anc s)
  then show ?case by simp
next
  case (2 anc nm cl ats ks)
  from 2(2) consider "a = anc" | k where "k \<in> set ks" "(a, n) \<in> set (walk (Tag nm cl ats ks # anc) k)"
    by auto
  then show ?case
  proof cases
    case 1
    with 2(3) show ?thesis by simp
  next
    case (2 k)
    with "2.IH"[OF 2(1) 2(2)] "2.prems"(2)
    have "above [c] (Tag nm cl ats ks # anc) \<or> occurs c k" by blast
    with 2(1) show ?thesis by (auto simp: above_single)
  qed
qed

lemma select_under_missing:
  assumes "\<not> occurs c (snd e)" "\<not> above [c] (fst e)"
  shows "select e [c, d] = []"
proof -
  have "\<not> sel_matches [c, d] x" if "x \<in> set (descendants e)" for x
  proof
    assume m: "sel_matches [c, d] x"
    obtain a n where x: "x = (a, n)" by (cases x)
    from m x have ab: "above [c] a" by (simp add: sel_matches_def)
    obtain anc w where e: "e = (anc, w)" by (cases e)
    show False
    proof (cases w)
      case (Text s)
      with that e show False by simp
    next
      case (Tag nm cl ats ks)
      with that e x obtain k where k: "k \<in> set ks" "(a, n) \<in> set (walk (w # anc) k)" by auto
      from walk_above[OF k(2) ab] have "above [c] (w # anc) \<or> occurs c k" .
      with assms e Tag k(1) show False by (auto simp: above_single)
    qed
  qed
  then show ?thesis by (simp add: select_def filter_empty_conv)
qed

lemma item_at_cases:
  "(i < length xs \<longrightarrow> item_at U sep xs i = Some (get_text U sep (xs ! i))) \<and>
   (length xs \<le> i \<longrightarrow> item_at U sep xs i = None)"
  by (simp add: item_at_def)

lemma fact_fields_positions:
  "map_of (fact_fields U wrap) ''wind'' = Some (extract_wind U (detail_at U wrap 0)) \<and>
   map_of (fact_fields U wrap) ''pressure'' = Some (extract_pressure U (detail_at U wrap 1)) \<and>
   map_of (fact_fields U wrap) ''humidity'' = Some (extract_humidity U (detail_at U wrap 2)) \<and>
   map_of (fact_fields U wrap) ''water_temperature'' = Some (detail_at U wrap 3)"
  by (simp add: fact_fields_def Let_def)

lemma day_fields_positions:
  "map_of (day_fields U b) ''pressure'' = Some (extract_pressure U (param_at U b 0)) \<and>
   map_of (day_fields U b) ''humidity'' = Some (extract_humidity U (param_at U b 1)) \<and>
   map_of (day_fields U b) ''wind'' = Some (extract_wind U (param_at U b 2)) \<and>
   map_of (day_fields U b) ''water_temperature'' = Some (param_at U b 3)"
  by (simp add: day_fields_def Let_def)

lemma detail_missing:
  "\<not> occurs ul_details (snd wrap) \<Longrightarrow> \<not> above [ul_details] (fst wrap) \<Longrightarrow> detail_at U wrap i = None"
  using select_under_missing[of ul_details wrap]
  by (simp add: detail_at_def details_items_def item_at_def ul_details_def)

lemma param_missing:
  "month_details b = None \<or>
   (\<exists>d. month_details b = Some d \<and> \<not> occurs ul_params (snd d) \<and> \<not> above [ul_params] (fst d))
   \<Longrightarrow> param_at U b i = None"
  using select_under_missing[of ul_params]
  by (auto simp: param_at_def month_params_def item_at_def ul_params_def)


lemma fact_items:
  "details_items fact_wrap =
     map (\<lambda>n. (Tag (ascii ''ul'') [ascii ''AppFact_details__OYahy''] []
                  (contents (hd (contents (hd fact_page)))) #
                hd fact_page # [Tag (ascii ''[document]'') [] [] fact_page], n))
       (contents (hd (contents (hd fact_page))))"
  by (simp add: details_items_def fact_wrap_def fact_page_def select_def sel_matches_def ascii_def)


lemma fact_items_length: "length (details_items fact_wrap) = 4"
  by (simp add: fact_items fact_page_def)

lemma fact_detail_0:
  "get_text basic_unicode [] (details_items fact_wrap ! 0) =
     [1057, 1047, 44, 32, 51, 32, 1084, 47, 1089]"
  by (simp add: fact_items fact_page_def get_text_def strip_def basic_unicode_def)

lemma fact_detail_1:
  "detail_at basic_unicode fact_wrap 1 =
     Some [55, 53, 56, 32, 1084, 1084, 32, 1088, 1090, 46, 32, 1089, 1090, 46]"
  by (simp add: detail_at_def item_at_def fact_items fact_page_def get_text_def strip_def
      basic_unicode_def)

lemma fact_pressure:
  "extract_pressure basic_unicode
     (Some [55, 53, 56, 32, 1084, 1084, 32, 1088, 1090, 46, 32, 1089, 1090, 46]) = Some [55, 53, 56]"
  by (simp add: extract_pressure_def digits_re_def basic_unicode_def)

lemma bare_div_missing:
  "\<not> occurs ul_details (snd bare_div) \<and> \<not> above [ul_details] (fst bare_div) \<and>
   month_details bare_div = None"
  by (simp add: bare_div_def ul_details_def month_details_def li_of_def find_parent_def
      select_one_def select_def ascii_def)

lemma sel_matches_pair: "sel_matches [c, d] (a, n) \<longleftrightarrow> matches d n \<and> above [c] a"
  by (simp add: sel_matches_def)

lemma walk_matches_occurs:
  "(a, n) \<in> set (walk anc x) \<Longrightarrow> matches d n \<Longrightarrow> occurs d x"
proof (induction anc x arbitrary: a n rule: walk.induct)
  case (1 anc s)
  then show ?case by simp
next
  case (2 anc nm cl ats ks)
  from 2(2) consider "n = Tag nm cl ats ks"
    | k where "k \<in> set ks" "(a, n) \<in> set (walk (Tag nm cl ats ks # anc) k)"
    by auto
  then show ?case
  proof cases
    case 1
    with 2(3) show ?thesis by simp
  next
    case (2 k)
    with "2.IH"[OF 2(1) 2(2)] "2.prems"(2) have "occurs d k" by blast
    with 2(1) show ?thesis by auto
  qed
qed

lemma filter_walk_none:
  assumes "\<not> occurs d k"
  shows "filter (sel_matches [c, d]) (walk A k) = []"
proof -
  have "\<not> sel_matches [c, d] x" if "x \<in> set (walk A k)" for x
  proof (cases x)
    case (Pair a n)
    with that assms walk_matches_occurs[of a n A k d] show ?thesis
      by (auto simp: sel_matches_pair)
  qed
  then show ?thesis by (simp add: filter_empty_conv)
qed

lemma filter_walk_texts:
  "\<forall>k \<in> set ks. is_text k \<Longrightarrow> filter (sel_matches [c, d]) (concat (map (walk B) ks)) = []"
proof (induction ks)
  case Nil
  then show ?case by simp
next
  case (Cons k ks)
  then obtain s where "k = Text s" by (cases k) auto
  with Cons show ?case by (simp add: sel_matches_pair)
qed

lemma filter_walk_leaf:
  assumes "leaf d l" "matches c u"
  shows "filter (sel_matches [c, d]) (walk (u # A) l) = [(u # A, l)]"
proof (cases l)
  case (Text s)
  with assms show ?thesis by simp
next
  case (Tag n cl ats ks)
  with assms have m: "matches d (Tag n cl ats ks)" and t: "\<forall>k \<in> set ks. is_text k" by auto
  from t have "filter (sel_matches [c, d]) (concat (map (walk (Tag n cl ats ks # u # A)) ks)) = []"
    by (rule filter_walk_texts)
  with Tag m assms(2) show ?thesis by (simp add: sel_matches_pair)
qed

lemma filter_walk_leaves:
  "\<forall>l \<in> set lis. leaf d l \<Longrightarrow> matches c u \<Longrightarrow>
   filter (sel_matches [c, d]) (concat (map (walk (u # A)) lis)) = map (\<lambda>l. (u # A, l)) lis"
  by (induction lis) (simp_all add: filter_walk_leaf)

lemma filter_walk_others:
  "\<forall>k \<in> set ks. \<not> occurs d k \<Longrightarrow>
   filter (sel_matches [c, d]) (concat (map (walk A) ks)) = []"
  by (induction ks) (simp_all add: filter_walk_none)

lemma select_holds_list:
  assumes "holds_list c d e lis"
  shows "map snd (select e [c, d]) = lis"
proof -
  from assms obtain anc n cl ats pre post un ucl uats where
    e: "e = (anc, Tag n cl ats (pre @ [Tag un ucl uats lis] @ post))" and
    mc: "matches c (Tag un ucl uats lis)" and md: "\<not> matches d (Tag un ucl uats lis)" and
    o: "\<forall>k \<in> set (pre @ post). \<not> occurs d k" and lf: "\<forall>l \<in> set lis. leaf d l"
    unfolding holds_list_def by blast
  let ?E = "Tag n cl ats (pre @ [Tag un ucl uats lis] @ post)"
  let ?u = "Tag un ucl uats lis"
  from o have p1: "filter (sel_matches [c, d]) (concat (map (walk (?E # anc)) pre)) = []"
    and p2: "filter (sel_matches [c, d]) (concat (map (walk (?E # anc)) post)) = []"
    by (auto intro: filter_walk_others)
  have u: "filter (sel_matches [c, d]) (walk (?E # anc) ?u) = map (\<lambda>l. (?u # ?E # anc, l)) lis"
    using md filter_walk_leaves[OF lf mc, of "?E # anc"] by (simp add: sel_matches_pair)
  have "select e [c, d] =
          filter (sel_matches [c, d]) (concat (map (walk (?E # anc)) pre)) @
          filter (sel_matches [c, d]) (walk (?E # anc) ?u) @
          filter (sel_matches [c, d]) (concat (map (walk (?E # anc)) post))"
    unfolding select_def e by (simp del: walk.simps)
  then have "select e [c, d] = map (\<lambda>l. (?u # ?E # anc, l)) lis"
    by (simp only: p1 p2 u append_Nil append_Nil2)
  then show ?thesis by (simp add: comp_def)
qed

lemma item_at_holds_list:
  assumes "holds_list c d e lis"
  shows "item_at U sep (select e [c, d]) i =
           (if i < length lis then Some (node_text U sep (lis ! i)) else None)"
proof -
  from select_holds_list[OF assms] have m: "map snd (select e [c, d]) = lis" .
  then have len: "length (select e [c, d]) = length lis" by (metis length_map)
  show ?thesis
  proof (cases "i < length lis")
    case True
    with m len have "snd (select e [c, d] ! i) = lis ! i" by (metis nth_map)
    with True len show ?thesis by (simp add: item_at_def get_text_def node_text_def)
  next
    case False
    with len show ?thesis by (simp add: item_at_def)
  qed
qed


lemma real_day_panel: "month_details real_day = Some real_panel"
  by (simp add: month_details_def li_of_def find_parent_def real_day_def real_panel_def
      day_li_def day_div_def details_panel_def params_ul_def param_items_def select_one_def
      select_def sel_matches_def ascii_def)

lemma real_panel_items: "holds_list ul_params li_any real_panel param_items"
  unfolding holds_list_def real_panel_def details_panel_def params_ul_def
  apply (rule exI[of _ "[day_li, hd day_page, Tag (ascii ''[document]'') [] [] day_page]"])
  apply (rule exI[of _ "ascii ''div''"])
  apply (rule exI[of _ "[ascii ''AppMonthCalendarDayDetailedInfo_details__Z6kgi'']"])
  apply (rule exI[of _ "[]"])
  apply (rule exI[of _ "[Tag (ascii ''p'')
      [ascii ''AppMonthCalendarDayDetailedInfo_details__feelsLike__nXzvQ''] []
      [Text [43, 49, 176]]]"])
  apply (rule exI[of _ "[]"])
  apply (rule exI[of _ "ascii ''ul''"])
  apply (rule exI[of _ "[ascii ''AppMonthCalendarDayDetailedInfo_params__7Z8Yt'']"])
  apply (rule exI[of _ "[]"])
  apply (simp add: ul_params_def li_any_def param_items_def ascii_def)
  done

lemma fact_wrap_items: "holds_list ul_details li_item fact_wrap fact_lis"
  unfolding holds_list_def fact_wrap_def fact_page_def
  apply (rule exI[of _ "[Tag (ascii ''[document]'') [] [] fact_page]"])
  apply (rule exI[of _ "ascii ''div''"])
  apply (rule exI[of _ "[ascii ''AppFact_wrap__N4SYB'']"])
  apply (rule exI[of _ "[]"])
  apply (rule exI[of _ "[]"])
  apply (rule exI[of _ "[]"])
  apply (rule exI[of _ "ascii ''ul''"])
  apply (rule exI[of _ "[ascii ''AppFact_details__OYahy'']"])
  apply (rule exI[of _ "[]"])
  apply (simp add: ul_details_def li_item_def fact_lis_def fact_page_def ascii_def)
  done

lemma param_items_texts:
  "length param_items = 4 \<and>
   node_text basic_unicode [32] (param_items ! 0) =
     [55, 53, 48, 32, 1084, 1084, 32, 1088, 1090, 46, 32, 1089, 1090, 46] \<and>
   node_text basic_unicode [32] (param_items ! 1) = [54, 53, 37] \<and>
   node_text basic_unicode [32] (param_items ! 2) = [1057, 1047, 44, 32, 51, 32, 1084, 47, 1089] \<and>
   node_text basic_unicode [32] (param_items ! 3) = [49, 56, 176]"
  by (simp add: param_items_def node_text_def strip_def basic_unicode_def)

lemma fact_lis_texts:
  "length fact_lis = 4 \<and> node_text basic_unicode [] (fact_lis ! 2) = [54, 53, 37]"
  by (simp add: fact_lis_def node_text_def strip_def basic_unicode_def)

lemma real_day_extracts:
  "extract_pressure basic_unicode
     (Some [55, 53, 48, 32, 1084, 1084, 32, 1088, 1090, 46, 32, 1089, 1090, 46]) = Some [55, 53, 48] \<and>
   extract_humidity basic_unicode (Some [54, 53, 37]) = Some [54, 53] \<and>
   extract_wind basic_unicode (Some [1057, 1047, 44, 32, 51, 32, 1084, 47, 1089]) =
     Some [1057, 1047, 44, 32, 51, 32, 1084, 47, 1089]"
  by (simp add: extract_pressure_def extract_humidity_def extract_wind_def digits_re_def
      strip_def basic_unicode_def)


text \<open>
  Claim C9. In the current conditions the items of the details list at positions 0, 1,
  2 and 3 give wind, pressure, humidity and water temperature; in a day of the month
  the parameters at positions 0, 1, 2 and 3 give pressure, humidity, wind and water
  temperature. An item within the list is the text of the tag at that position; an
  index at or beyond the length of the list gives nothing, and so does every index
  when the list container is missing (for the month, also when the details panel is).
  When the fact block, or the details panel of the day, holds the list with the items
  \<open>lis\<close>, the value at an index within \<open>lis\<close> is the text of the item of \<open>lis\<close>
  at that index, and every other index gives nothing.
\<close>

theorem details_positional:
  "map_of (fact_fields U wrap) ''wind'' = Some (extract_wind U (detail_at U wrap 0)) \<and>
   map_of (fact_fields U wrap) ''pressure'' = Some (extract_pressure U (detail_at U wrap 1)) \<and>
   map_of (fact_fields U wrap) ''humidity'' = Some (extract_humidity U (detail_at U wrap 2)) \<and>
   map_of (fact_fields U wrap) ''water_temperature'' = Some (detail_at U wrap 3) \<and>
   map_of (day_fields U b) ''pressure'' = Some (extract_pressure U (param_at U b 0)) \<and>
   map_of (day_fields U b) ''humidity'' = Some (extract_humidity U (param_at U b 1)) \<and>
   map_of (day_fields U b) ''wind'' = Some (extract_wind U (param_at U b 2)) \<and>
   map_of (day_fields U b) ''water_temperature'' = Some (param_at U b 3) \<and>
   (i < length (details_items wrap) \<longrightarrow>
      detail_at U wrap i = Some (get_text U [] (details_items wrap ! i))) \<and>
   (length (details_items wrap) \<le> i \<longrightarrow> detail_at U wrap i = None) \<and>
   (i < length (month_params b) \<longrightarrow>
      param_at U b i = Some (get_text U [32] (month_params b ! i))) \<and>
   (length (month_params b) \<le> i \<longrightarrow> param_at U b i = None) \<and>
   (\<not> occurs ul_details (snd wrap) \<and> \<not> above [ul_details] (fst wrap) \<longrightarrow>
      detail_at U wrap i = None) \<and>
   (month_details b = None \<or>
    (\<exists>d. month_details b = Some d \<and> \<not> occurs ul_params (snd d) \<and>
         \<not> above [ul_params] (fst d)) \<longrightarrow>
      param_at U b i = None) \<and>
   (holds_list ul_details li_item wrap lis \<longrightarrow>
      (i < length lis \<longrightarrow> detail_at U wrap i = Some (node_text U [] (lis ! i))) \<and>
      (length lis \<le> i \<longrightarrow> detail_at U wrap i = None)) \<and>
   (month_details b = Some panel \<and> holds_list ul_params li_any panel lis \<longrightarrow>
      (i < length lis \<longrightarrow> param_at U b i = Some (node_text U [32] (lis ! i))) \<and>
      (length lis \<le> i \<longrightarrow> param_at U b i = None))"
proof -
  have cur: "holds_list ul_details li_item wrap lis \<longrightarrow>
      (i < length lis \<longrightarrow> detail_at U wrap i = Some (node_text U [] (lis ! i))) \<and>
      (length lis \<le> i \<longrightarrow> detail_at U wrap i = None)"
    using item_at_holds_list[of ul_details li_item wrap lis U "[]" i]
    by (simp add: detail_at_def details_items_def ul_details_def li_item_def)
  have mon: "month_details b = Some panel \<and> holds_list ul_params li_any panel lis \<longrightarrow>
      (i < length lis \<longrightarrow> param_at U b i = Some (node_text U [32] (lis ! i))) \<and>
      (length lis \<le> i \<longrightarrow> param_at U b i = None)"
    using item_at_holds_list[of ul_params li_any panel lis U "[32]" i]
    by (simp add: param_at_def month_params_def ul_params_def li_any_def)
  have rest: "map_of (fact_fields U wrap) ''wind'' = Some (extract_wind U (detail_at U wrap 0)) \<and>
   map_of (fact_fields U wrap) ''pressure'' = Some (extract_pressure U (detail_at U wrap 1)) \<and>
   map_of (fact_fields U wrap) ''humidity'' = Some (extract_humidity U (detail_at U wrap 2)) \<and>
   map_of (fact_fields U wrap) ''water_temperature'' = Some (detail_at U wrap 3) \<and>
   map_of (day_fields U b) ''pressure'' = Some (extract_pressure U (param_at U b 0)) \<and>
   map_of (day_fields U b) ''humidity'' = Some (extract_humidity U (param_at U b 1)) \<and>
   map_of (day_fields U b) ''wind'' = Some (extract_wind U (param_at U b 2)) \<and>
   map_of (day_fields U b) ''water_temperature'' = Some (param_at U b 3) \<and>
   (i < length (details_items wrap) \<longrightarrow>
      detail_at U wrap i = Some (get_text U [] (details_items wrap ! i))) \<and>
   (length (details_items wrap) \<le> i \<longrightarrow> detail_at U wrap i = None) \<and>
   (i < length (month_params b) \<longrightarrow>
      param_at U b i = Some (get_text U [32] (month_params b ! i))) \<and>
   (length (month_params b) \<le> i \<longrightarrow> param_at U b i = None) \<and>
   (\<not> occurs ul_details (snd wrap) \<and> \<not> above [ul_details] (fst wrap) \<longrightarrow>
      detail_at U wrap i = None) \<and>
   (month_details b = None \<or>
    (\<exists>d. month_details b = Some d \<and> \<not> occurs ul_params (snd d) \<and>
         \<not> above [ul_params] (fst d)) \<longrightarrow>
      param_at U b i = None)"
    using fact_fields_positions[of U wrap] day_fields_positions[of U b]
      item_at_cases[of i "details_items wrap" U "[]"]
      item_at_cases[of i "month_params b" U "[32]"]
      detail_missing[of wrap U i] param_missing[of b U i]
    unfolding detail_at_def[of U wrap i] param_at_def[of U b i]
    by blast
  from rest cur mon show ?thesis by blast
qed

theorem details_positional_witness:
  "detail_at basic_unicode fact_wrap 0 = Some [1057, 1047, 44, 32, 51, 32, 1084, 47, 1089] \<and>
   detail_at basic_unicode fact_wrap 4 = None \<and>
   map_of (fact_fields basic_unicode fact_wrap) ''pressure'' = Some (Some [55, 53, 56]) \<and>
   detail_at basic_unicode bare_div 0 = None \<and>
   param_at basic_unicode bare_div 0 = None \<and>
   detail_at basic_unicode fact_wrap 2 = Some [54, 53, 37] \<and>
   param_at basic_unicode real_day 0 =
     Some [55, 53, 48, 32, 1084, 1084, 32, 1088, 1090, 46, 32, 1089, 1090, 46] \<and>
   param_at basic_unicode real_day 4 = None \<and>
   map_of (day_fields basic_unicode real_day) ''pressure'' = Some (Some [55, 53, 48]) \<and>
   map_of (day_fields basic_unicode real_day) ''humidity'' = Some (Some [54, 53]) \<and>
   map_of (day_fields basic_unicode real_day) ''wind'' =
     Some (Some [1057, 1047, 44, 32, 51, 32, 1084, 47, 1089]) \<and>
   map_of (day_fields basic_unicode real_day) ''water_temperature'' = Some (Some [49, 56, 176])"
proof -
  note p = real_day_panel real_panel_items param_items_texts real_day_extracts
  have cur: "detail_at basic_unicode fact_wrap 0 = Some [1057, 1047, 44, 32, 51, 32, 1084, 47, 1089] \<and>
   detail_at basic_unicode fact_wrap 4 = None \<and>
   map_of (fact_fields basic_unicode fact_wrap) ''pressure'' = Some (Some [55, 53, 56]) \<and>
   detail_at basic_unicode bare_div 0 = None \<and>
   param_at basic_unicode bare_div 0 = None"
    using details_positional [where U = basic_unicode and wrap = fact_wrap and b = bare_div
        and i = 0 and lis = "[]" and panel = bare_div]
      details_positional [where U = basic_unicode and wrap = fact_wrap and b = bare_div
        and i = 4 and lis = "[]" and panel = bare_div]
      details_positional [where U = basic_unicode and wrap = bare_div and b = bare_div
        and i = 0 and lis = "[]" and panel = bare_div]
      fact_items_length fact_detail_0 fact_detail_1 fact_pressure bare_div_missing
    by simp
  have c2: "detail_at basic_unicode fact_wrap 2 = Some [54, 53, 37]"
    using details_positional [where U = basic_unicode and wrap = fact_wrap and b = bare_div
        and i = 2 and lis = fact_lis and panel = bare_div] fact_wrap_items fact_lis_texts
    by simp
  have m0: "param_at basic_unicode real_day 0 =
     Some [55, 53, 48, 32, 1084, 1084, 32, 1088, 1090, 46, 32, 1089, 1090, 46] \<and>
     map_of (day_fields basic_unicode real_day) ''pressure'' = Some (Some [55, 53, 48])"
    using details_positional [where U = basic_unicode and wrap = bare_div and b = real_day
        and i = 0 and lis = param_items and panel = real_panel] p
    by simp
  have m1: "map_of (day_fields basic_unicode real_day) ''humidity'' = Some (Some [54, 53])"
    using details_positional [where U = basic_unicode and wrap = bare_div and b = real_day
        and i = 1 and lis = param_items and panel = real_panel] p
    by simp
  have m2: "map_of (day_fields basic_unicode real_day) ''wind'' =
     Some (Some [1057, 1047, 44, 32, 51, 32, 1084, 47, 1089])"
    using details_positional [where U = basic_unicode and wrap = bare_div and b = real_day
        and i = 2 and lis = param_items and panel = real_panel] p
    by simp
  have m3: "map_of (day_fields basic_unicode real_day) ''water_temperature'' =
     Some (Some [49, 56, 176])"
    using details_positional [where U = basic_unicode and wrap = bare_div and b = real_day
        and i = 3 and lis = param_items and panel = real_panel] p
    by simp
  have m4: "param_at basic_unicode real_day 4 = None"
    using details_positional [where U = basic_unicode and wrap = bare_div and b = real_day
        and i = 4 and lis = param_items and panel = real_panel] p
    by simp
  from cur c2 m0 m1 m2 m3 m4 show ?thesis by blast
qed


end
